theory Spec2Isabelle
  imports Complex_Main "HOL-Library.Multiset"
begin

section \<open>Retailer back end: orders, products and the dashboard\<close>

text \<open>
  The controllers of the repository (\<^verbatim>\<open>orderController.js\<close>, \<^verbatim>\<open>productController.js\<close>,
  \<^verbatim>\<open>retailerController.js\<close>) are request handlers over a hosted relational store that they
  reach through a query builder. Each handler is embedded as a function from the request
  and the current content of the store to the response and the new content of the store.
  What the handler cannot decide by itself is an input of the model, collected in the
  record \<open>env\<close>: whether a call to the store fails, the store's clock and fresh row id, and
  the readings of the clock of the JavaScript runtime.
\<close>

subsection \<open>JavaScript values\<close>

text \<open>
  Integers (stock, quantity) are \<open>int\<close>. Amounts of money are JavaScript numbers that hold
  the store's \<^verbatim>\<open>DECIMAL(10,2)\<close> values; they are embedded as exact rationals, so \<open>*\<close> and \<open>+\<close>
  are the exact operations and the rounding of binary floating point is outside the model.
\<close>

text \<open>Decimal digits of a natural number; \<open>digit\<close> is only applied below ten.\<close>

definition digit :: "nat \<Rightarrow> char" where
  "digit d = ''0123456789'' ! d"

function show_nat :: "nat \<Rightarrow> string" where
  "show_nat n = (if n < 10 then [digit n] else show_nat (n div 10) @ [digit (n mod 10)])"
  by pat_completeness auto
termination
  by (relation "measure id") auto

declare show_nat.simps [simp del]

text \<open>An integer inside a template literal: \<^verbatim>\<open>`${n}`\<close>.\<close>

definition show_int :: "int \<Rightarrow> string" where
  "show_int i = (if i < 0 then CHR ''-'' # show_nat (nat (- i)) else show_nat (nat i))"

text \<open>
  \<^verbatim>\<open>x.toFixed(2)\<close>: the sign, then the integer \<open>n\<close> nearest to \<open>100 * |x|\<close> (the larger one
  on a tie), written with at least three digits and a point before the last two. (The
  exponent notation that JavaScript switches to from \<open>10^21\<close> on is not modelled.)
\<close>

definition pad3 :: "string \<Rightarrow> string" where
  "pad3 m = replicate (3 - length m) (CHR ''0'') @ m"

definition point2 :: "string \<Rightarrow> string" where
  "point2 m = take (length m - 2) m @ ''.'' @ drop (length m - 2) m"

definition toFixed2 :: "rat \<Rightarrow> string" where
  "toFixed2 x =
     (if x < 0 then ''-'' else '''') @
     point2 (pad3 (show_nat (nat \<lfloor>\<bar>x\<bar> * 100 + 1 / 2\<rfloor>)))"

text \<open>\<^verbatim>\<open>s.split('T')[0]\<close>: the part of \<open>s\<close> before its first \<^verbatim>\<open>T\<close>, all of \<open>s\<close> when it has none.\<close>

definition split_T_0 :: "string \<Rightarrow> string" where
  "split_T_0 s = takeWhile (\<lambda>c. c \<noteq> CHR ''T'') s"

text \<open>
  The truth value of a boolean or \<^verbatim>\<open>null\<close>, as \<^verbatim>\<open>!\<close>, \<^verbatim>\<open>if\<close> and \<^verbatim>\<open>filter\<close> take it: only
  \<^verbatim>\<open>true\<close> is truthy. \<open>None\<close> is \<^verbatim>\<open>null\<close>.
\<close>

definition truthy :: "bool option \<Rightarrow> bool" where
  "truthy b = (b = Some True)"

subsection \<open>Dates\<close>

text \<open>
  \<^verbatim>\<open>new Date(t).toISOString()\<close> for a time value \<open>t\<close>, the milliseconds since the epoch, as the
  language standard defines it (sections ``Day Number and Time within Day'' to ``Date
  Number'' and \<^verbatim>\<open>Date.prototype.toISOString\<close>); the functions keep the names of the standard.
  The standard defines \<open>YearFromTime t\<close> as the largest year \<open>y\<close> whose first day is not after
  \<open>t\<close>; it is computed here from the estimate \<open>year_near\<close>, which is at most one year off, and
  \<open>YearFromTime_iff\<close> below shows that it is that year. Time values are those in the range of
  \<^verbatim>\<open>Date\<close> (\<open>8.64 * 10^15\<close> milliseconds either side of the epoch), in which every reading of
  the clock lies.
\<close>

definition msPerDay :: int where
  "msPerDay = 86400000"

definition Day :: "int \<Rightarrow> int" where
  "Day t = t div msPerDay"

definition DaysInYear :: "int \<Rightarrow> int" where
  "DaysInYear y =
     (if y mod 4 \<noteq> 0 then 365 else if y mod 100 \<noteq> 0 then 366
      else if y mod 400 \<noteq> 0 then 365 else 366)"

definition DayFromYear :: "int \<Rightarrow> int" where
  "DayFromYear y =
     365 * (y - 1970) + (y - 1969) div 4 - (y - 1901) div 100 + (y - 1601) div 400"

definition year_near :: "int \<Rightarrow> int" where
  "year_near d = 1970 + (d * 400) div 146097"

definition YearFromTime :: "int \<Rightarrow> int" where
  "YearFromTime t =
     (if DayFromYear (year_near (Day t) + 1) \<le> Day t then year_near (Day t) + 1
      else if DayFromYear (year_near (Day t)) \<le> Day t then year_near (Day t)
      else year_near (Day t) - 1)"

definition InLeapYear :: "int \<Rightarrow> int" where
  "InLeapYear t = (if DaysInYear (YearFromTime t) = 366 then 1 else 0)"

definition DayWithinYear :: "int \<Rightarrow> int" where
  "DayWithinYear t = Day t - DayFromYear (YearFromTime t)"

definition MonthFromTime :: "int \<Rightarrow> int" where
  "MonthFromTime t =
     (if DayWithinYear t < 31 then 0
      else if DayWithinYear t < 59 + InLeapYear t then 1
      else if DayWithinYear t < 90 + InLeapYear t then 2
      else if DayWithinYear t < 120 + InLeapYear t then 3
      else if DayWithinYear t < 151 + InLeapYear t then 4
      else if DayWithinYear t < 181 + InLeapYear t then 5
      else if DayWithinYear t < 212 + InLeapYear t then 6
      else if DayWithinYear t < 243 + InLeapYear t then 7
      else if DayWithinYear t < 273 + InLeapYear t then 8
      else if DayWithinYear t < 304 + InLeapYear t then 9
      else if DayWithinYear t < 334 + InLeapYear t then 10
      else 11)"

definition DateFromTime :: "int \<Rightarrow> int" where
  "DateFromTime t =
     (if MonthFromTime t = 0 then DayWithinYear t + 1
      else if MonthFromTime t = 1 then DayWithinYear t - 30
      else if MonthFromTime t = 2 then DayWithinYear t - 58 - InLeapYear t
      else if MonthFromTime t = 3 then DayWithinYear t - 89 - InLeapYear t
      else if MonthFromTime t = 4 then DayWithinYear t - 119 - InLeapYear t
      else if MonthFromTime t = 5 then DayWithinYear t - 150 - InLeapYear t
      else if MonthFromTime t = 6 then DayWithinYear t - 180 - InLeapYear t
      else if MonthFromTime t = 7 then DayWithinYear t - 211 - InLeapYear t
      else if MonthFromTime t = 8 then DayWithinYear t - 242 - InLeapYear t
      else if MonthFromTime t = 9 then DayWithinYear t - 272 - InLeapYear t
      else if MonthFromTime t = 10 then DayWithinYear t - 303 - InLeapYear t
      else DayWithinYear t - 333 - InLeapYear t)"

definition HourFromTime :: "int \<Rightarrow> int" where
  "HourFromTime t = (t div 3600000) mod 24"

definition MinFromTime :: "int \<Rightarrow> int" where
  "MinFromTime t = (t div 60000) mod 60"

definition SecFromTime :: "int \<Rightarrow> int" where
  "SecFromTime t = (t div 1000) mod 60"

definition msFromTime :: "int \<Rightarrow> int" where
  "msFromTime t = t mod 1000"

text \<open>
  The format \<^verbatim>\<open>YYYY-MM-DDTHH:mm:ss.sssZ\<close>, each number padded with zeros to its width; a year
  outside \<open>0\<close> to \<open>9999\<close> is written with its sign and six digits.
\<close>

function pad :: "nat \<Rightarrow> string \<Rightarrow> string" where
  "pad n s = (if length s < n then pad n (CHR ''0'' # s) else s)"
  by pat_completeness auto
termination
  by (relation "measure (\<lambda>(n, s). n - length s)") auto
declare pad.simps [simp del]

definition digits :: "nat \<Rightarrow> int \<Rightarrow> string" where
  "digits n i = pad n (show_nat (nat i))"

definition iso_year :: "int \<Rightarrow> string" where
  "iso_year y =
     (if 0 \<le> y \<and> y \<le> 9999 then digits 4 y
      else (if y < 0 then ''-'' else ''+'') @ digits 6 \<bar>y\<bar>)"

definition toISOString :: "int \<Rightarrow> string" where
  "toISOString t =
     iso_year (YearFromTime t) @ ''-'' @ digits 2 (MonthFromTime t + 1) @ ''-'' @
     digits 2 (DateFromTime t) @ ''T'' @ digits 2 (HourFromTime t) @ '':'' @
     digits 2 (MinFromTime t) @ '':'' @ digits 2 (SecFromTime t) @ ''.'' @
     digits 3 (msFromTime t) @ ''Z''"

subsection \<open>The tables\<close>

text \<open>
  The columns are those of the \<^verbatim>\<open>CREATE TABLE\<close> statements of the setup guide. A table is
  the list of its rows. Column names shared by both tables carry the prefix \<open>p_\<close> or \<open>o_\<close>.
  The column \<^verbatim>\<open>is_active BOOLEAN DEFAULT true\<close> has no \<^verbatim>\<open>NOT NULL\<close>: it holds \<^verbatim>\<open>true\<close>, \<^verbatim>\<open>false\<close> or
  \<^verbatim>\<open>NULL\<close> (\<open>None\<close>), and \<^verbatim>\<open>updateProduct\<close> stores whatever value the request body gives it.
\<close>

type_synonym uuid = string
type_synonym timestamptz = string

record product_row =
  p_id :: uuid
  p_retailer_id :: uuid
  name :: string
  description :: "string option"
  price :: rat
  stock :: int
  category :: "string option"
  image_url :: "string option"
  is_active :: "bool option"
  p_created_at :: timestamptz
  p_updated_at :: timestamptz

record order_row =
  o_id :: uuid
  o_retailer_id :: uuid
  customer_name :: string
  customer_email :: "string option"
  customer_phone :: "string option"
  product_id :: uuid
  quantity :: int
  unit_price :: rat
  total_amount :: rat
  status :: string
  order_notes :: "string option"
  o_created_at :: timestamptz
  o_updated_at :: timestamptz

text \<open>The error object of the query builder; the handlers only read its \<^verbatim>\<open>code\<close>.\<close>

datatype pg_error = PgError (code: string)

text \<open>A line written with \<^verbatim>\<open>console.error(label, error)\<close>.\<close>

datatype log_line = ConsoleError string pg_error

record world =
  products :: "product_row list"
  orders :: "order_row list"
  console :: "log_line list"

text \<open>
  The environment of one request. \<open>fails env k\<close> is the error, if any, with which the
  store answers the \<open>k\<close>-th call site of the handler (counted in program order); it stands
  for every reason the store may have to refuse a call (transport failure, a constraint,
  a policy). \<open>gen_random_uuid\<close> and \<open>NOW\<close> are the column defaults of the store,
  \<open>Date_now env k\<close> is the \<open>k\<close>-th reading of \<^verbatim>\<open>Date.now()\<close> that the handler takes (counted
  in program order, from 1), in milliseconds since the epoch, and \<open>instant t\<close> is the instant
  that the stored timestamp \<open>t\<close> denotes, in milliseconds since the epoch (a fraction: the
  store keeps microseconds), by which the store compares and sorts timestamps.
\<close>

record env =
  fails :: "nat \<Rightarrow> pg_error option"
  gen_random_uuid :: uuid
  NOW :: timestamptz
  Date_now :: "nat \<Rightarrow> int"
  instant :: "timestamptz \<Rightarrow> rat"

subsection \<open>The query builder\<close>

text \<open>
  \<^verbatim>\<open>.single()\<close> demands exactly one row and answers error \<^verbatim>\<open>PGRST116\<close> otherwise.
\<close>

fun single :: "'a list \<Rightarrow> pg_error + 'a" where
  "single [r] = Inr r"
| "single rs = Inl (PgError ''PGRST116'')"

text \<open>The answer \<^verbatim>\<open>{ data, error }\<close> of call site \<open>k\<close>: the injected error, or the data.\<close>

definition answer :: "env \<Rightarrow> nat \<Rightarrow> (pg_error + 'a) \<Rightarrow> pg_error + 'a" where
  "answer env k res = (case fails env k of Some e \<Rightarrow> Inl e | None \<Rightarrow> res)"

text \<open>
  \<^verbatim>\<open>.update(...)\<close> on the rows that satisfy the filters. The trigger
  \<^verbatim>\<open>update_products_updated_at\<close> of the setup guide (\<^verbatim>\<open>BEFORE UPDATE ... NEW.updated_at = NOW()\<close>)
  stamps every row that is updated.
\<close>

definition update_products ::
    "env \<Rightarrow> (product_row \<Rightarrow> bool) \<Rightarrow> (product_row \<Rightarrow> product_row) \<Rightarrow> product_row list
      \<Rightarrow> product_row list" where
  "update_products env P f rows =
     map (\<lambda>r. if P r then (f r)\<lparr>p_updated_at := NOW env\<rparr> else r) rows"

subsection \<open>Responses\<close>

text \<open>The embedded resource \<^verbatim>\<open>products (name, category, image_url)\<close> of an order.\<close>

record product_summary =
  s_name :: string
  s_category :: "string option"
  s_image_url :: "string option"

definition embed_product :: "product_row list \<Rightarrow> order_row \<Rightarrow> product_summary option" where
  "embed_product rows ord =
     map_option (\<lambda>p. \<lparr>s_name = name p, s_category = category p, s_image_url = image_url p\<rparr>)
       (find (\<lambda>p. p_id p = product_id ord) rows)"

text \<open>The body of the dashboard response.\<close>

record retailer =
  r_id :: uuid
  r_user_id :: uuid
  r_name :: string
  r_email :: string
  r_theme :: string

record product_stats =
  total :: nat
  active :: nat
  inactive :: nat
  outOfStock :: nat

record order_stats =
  totalLast30Days :: nat
  pending :: nat
  delivered :: nat
  revenueLast30Days :: string

record low_stock_item =
  ls_id :: uuid
  ls_name :: string
  ls_stock :: int

text \<open>One point of the chart; \<open>None\<close> is JavaScript's \<^verbatim>\<open>undefined\<close>.\<close>

record chart_point =
  date :: string
  orders_on :: "nat option"

record dashboard =
  store :: retailer
  productStats :: product_stats
  orderStats :: order_stats
  lowStockProducts :: "low_stock_item list"
  weeklyOrderChart :: "chart_point list"

datatype payload =
    NoData
  | OrderData order_row "product_summary option"
  | ProductData product_row
  | DashboardData dashboard

text \<open>
  A handler either sends \<^verbatim>\<open>res.status(n).json({ success, message, data })\<close> or throws the
  store's error, which \<^verbatim>\<open>asyncHandler\<close> hands to the error middleware.
\<close>

datatype outcome =
    Sent nat bool "string option" payload
  | Thrown pg_error

subsection \<open>Order creation (\<^verbatim>\<open>createOrder\<close>)\<close>

record order_body =
  body_customer_name :: string
  body_customer_email :: "string option"
  body_customer_phone :: "string option"
  body_product_id :: uuid
  body_quantity :: int
  body_notes :: "string option"

text \<open>
  Call sites: 1 the product lookup, 2 the insert of the order, 3 the stock write.
  Step 1: the product of the request, owned by the retailer and active.
\<close>

definition fetch_product :: "env \<Rightarrow> world \<Rightarrow> uuid \<Rightarrow> order_body \<Rightarrow> pg_error + product_row" where
  "fetch_product env w retailerId body =
     answer env 1 (single (filter
       (\<lambda>p. p_id p = body_product_id body \<and> p_retailer_id p = retailerId \<and>
            is_active p = Some True)
       (products w)))"

text \<open>Step 4: the row that is inserted, with the snapshot of price and total.\<close>

definition new_order :: "env \<Rightarrow> uuid \<Rightarrow> order_body \<Rightarrow> product_row \<Rightarrow> order_row" where
  "new_order env retailerId body product =
     \<lparr>o_id = gen_random_uuid env,
      o_retailer_id = retailerId,
      customer_name = body_customer_name body,
      customer_email = body_customer_email body,
      customer_phone = body_customer_phone body,
      product_id = body_product_id body,
      quantity = body_quantity body,
      unit_price = price product,
      total_amount = price product * of_int (body_quantity body),
      status = ''pending'',
      order_notes = body_notes body,
      o_created_at = NOW env,
      o_updated_at = NOW env\<rparr>"

text \<open>Step 5: the stock write; its error is logged and the handler goes on.\<close>

definition decrement_stock :: "env \<Rightarrow> world \<Rightarrow> order_body \<Rightarrow> product_row \<Rightarrow> world" where
  "decrement_stock env w body product =
     (case fails env 3 of
        Some stockError \<Rightarrow>
          w\<lparr>console := console w @ [ConsoleError ''Stock update failed:'' stockError]\<rparr>
      | None \<Rightarrow>
          w\<lparr>products := update_products env (\<lambda>r. p_id r = body_product_id body)
                 (\<lambda>r. r\<lparr>stock := stock product - body_quantity body\<rparr>) (products w)\<rparr>)"

definition insufficient_stock_message :: "int \<Rightarrow> int \<Rightarrow> string" where
  "insufficient_stock_message available requested =
     ''Insufficient stock. Available: '' @ show_int available @
     '', Requested: '' @ show_int requested"

definition createOrder :: "env \<Rightarrow> world \<Rightarrow> uuid \<Rightarrow> order_body \<Rightarrow> outcome \<times> world" where
  "createOrder env w retailerId body =
     (case fetch_product env w retailerId body of
        Inl productError \<Rightarrow>
          (Sent 404 False (Some ''Product not found or not available'') NoData, w)
      | Inr product \<Rightarrow>
          if stock product < body_quantity body then
            (Sent 400 False
               (Some (insufficient_stock_message (stock product) (body_quantity body))) NoData, w)
          else
            (case fails env 2 of
               Some orderError \<Rightarrow> (Thrown orderError, w)
             | None \<Rightarrow>
                 (Sent 201 True (Some ''Order created successfully'')
                    (OrderData (new_order env retailerId body product)
                       (embed_product (products w) (new_order env retailerId body product))),
                  decrement_stock env
                    (w\<lparr>orders := orders w @ [new_order env retailerId body product]\<rparr>)
                    body product)))"

subsection \<open>Order deletion (\<^verbatim>\<open>deleteOrder\<close>)\<close>

text \<open>Call sites: 1 the order, 2 the product's stock, 3 the stock write, 4 the delete.\<close>

definition fetch_order :: "env \<Rightarrow> world \<Rightarrow> uuid \<Rightarrow> uuid \<Rightarrow> pg_error + order_row" where
  "fetch_order env w retailerId id' =
     answer env 1 (single (filter (\<lambda>ord. o_id ord = id' \<and> o_retailer_id ord = retailerId) (orders w)))"

text \<open>
  The stock of a \<^verbatim>\<open>pending\<close> order is given back only under the guard
  \<^verbatim>\<open>!productError && product\<close>; the answer of the stock write itself is not read.
\<close>

definition restore_stock :: "env \<Rightarrow> world \<Rightarrow> order_row \<Rightarrow> world" where
  "restore_stock env w ord =
     (if status ord = ''pending'' then
        (case answer env 2
                (single (map stock (filter (\<lambda>p. p_id p = product_id ord) (products w)))) of
           Inl productError \<Rightarrow> w
         | Inr product_stock \<Rightarrow>
             (case fails env 3 of
                Some e \<Rightarrow> w
              | None \<Rightarrow>
                  w\<lparr>products := update_products env (\<lambda>r. p_id r = product_id ord)
                         (\<lambda>r. r\<lparr>stock := product_stock + quantity ord\<rparr>) (products w)\<rparr>))
      else w)"

definition delete_order_rows :: "world \<Rightarrow> uuid \<Rightarrow> uuid \<Rightarrow> world" where
  "delete_order_rows w retailerId id' =
     w\<lparr>orders := filter (\<lambda>ord. \<not> (o_id ord = id' \<and> o_retailer_id ord = retailerId)) (orders w)\<rparr>"

definition deleteOrder :: "env \<Rightarrow> world \<Rightarrow> uuid \<Rightarrow> uuid \<Rightarrow> outcome \<times> world" where
  "deleteOrder env w retailerId id' =
     (case fetch_order env w retailerId id' of
        Inl fetchError \<Rightarrow>
          if code fetchError = ''PGRST116''
          then (Sent 404 False (Some ''Order not found'') NoData, w)
          else (Thrown fetchError, w)
      | Inr ord \<Rightarrow>
          if status ord \<notin> set [''pending'', ''cancelled''] then
            (Sent 409 False (Some ''Only pending or cancelled orders can be deleted'') NoData, w)
          else
            (case fails env 4 of
               Some deleteError \<Rightarrow> (Thrown deleteError, restore_stock env w ord)
             | None \<Rightarrow>
                 (Sent 200 True (Some ''Order deleted successfully'') NoData,
                  delete_order_rows (restore_stock env w ord) retailerId id')))"

subsection \<open>Product deletion and status toggle (\<^verbatim>\<open>deleteProduct\<close>, \<^verbatim>\<open>toggleProductStatus\<close>)\<close>

text \<open>
  \<^verbatim>\<open>.delete()\<close> on the products that satisfy the filters; \<^verbatim>\<open>orders.product_id\<close> is declared
  \<^verbatim>\<open>REFERENCES products(id) ON DELETE CASCADE\<close>, so the orders of a deleted product go too.
\<close>

definition delete_products :: "(product_row \<Rightarrow> bool) \<Rightarrow> world \<Rightarrow> world" where
  "delete_products P w =
     w\<lparr>products := filter (\<lambda>p. \<not> P p) (products w),
       orders := filter (\<lambda>ord. product_id ord \<notin> set (map p_id (filter P (products w))))
                   (orders w)\<rparr>"

text \<open>Call sites: 1 the orders of the product (\<^verbatim>\<open>.limit(1)\<close>), 2 the delete.\<close>

definition deleteProduct :: "env \<Rightarrow> world \<Rightarrow> uuid \<Rightarrow> uuid \<Rightarrow> outcome \<times> world" where
  "deleteProduct env w retailerId id' =
     (case answer env 1 (Inr (take 1 (map o_id (filter (\<lambda>ord. product_id ord = id') (orders w))))) of
        Inl orderError \<Rightarrow> (Thrown orderError, w)
      | Inr ords \<Rightarrow>
          if length ords > 0 then
            (Sent 409 False
               (Some ''Cannot delete product that has existing orders. Consider deactivating it instead.'')
               NoData, w)
          else
            (case fails env 2 of
               Some error \<Rightarrow> (Thrown error, w)
             | None \<Rightarrow>
                 (Sent 200 True (Some ''Product deleted successfully'') NoData,
                  delete_products (\<lambda>p. p_id p = id' \<and> p_retailer_id p = retailerId) w)))"

text \<open>
  Call sites: 1 the current flag, 2 the update with \<^verbatim>\<open>.select().single()\<close>. When the update
  is refused, or does not touch exactly one row, the store keeps the table as it was. The
  new status is \<^verbatim>\<open>!currentProduct.is_active\<close>, which is \<^verbatim>\<open>true\<close> for a flag that is \<^verbatim>\<open>false\<close> or
  \<^verbatim>\<open>null\<close>.
\<close>

definition toggled_rows :: "env \<Rightarrow> world \<Rightarrow> uuid \<Rightarrow> uuid \<Rightarrow> bool \<Rightarrow> product_row list" where
  "toggled_rows env w retailerId id' newStatus =
     update_products env (\<lambda>p. p_id p = id' \<and> p_retailer_id p = retailerId)
       (\<lambda>p. p\<lparr>is_active := Some newStatus\<rparr>) (products w)"

definition toggle_message :: "bool \<Rightarrow> string" where
  "toggle_message newStatus =
     ''Product '' @ (if newStatus then ''activated'' else ''deactivated'') @ '' successfully''"

definition toggleProductStatus :: "env \<Rightarrow> world \<Rightarrow> uuid \<Rightarrow> uuid \<Rightarrow> outcome \<times> world" where
  "toggleProductStatus env w retailerId id' =
     (case answer env 1 (single (map is_active
              (filter (\<lambda>p. p_id p = id' \<and> p_retailer_id p = retailerId) (products w)))) of
        Inl fetchError \<Rightarrow>
          if code fetchError = ''PGRST116''
          then (Sent 404 False (Some ''Product not found'') NoData, w)
          else (Thrown fetchError, w)
      | Inr current_is_active \<Rightarrow>
          (case answer env 2 (single (filter (\<lambda>p. p_id p = id' \<and> p_retailer_id p = retailerId)
                   (toggled_rows env w retailerId id' (\<not> truthy current_is_active)))) of
             Inl error \<Rightarrow> (Thrown error, w)
           | Inr row \<Rightarrow>
               (Sent 200 True (Some (toggle_message (\<not> truthy current_is_active)))
                  (ProductData row),
                w\<lparr>products :=
                    toggled_rows env w retailerId id' (\<not> truthy current_is_active)\<rparr>)))"

subsection \<open>The dashboard (\<^verbatim>\<open>getDashboard\<close>)\<close>

text \<open>
  The four queries, call sites 1 to 4. \<^verbatim>\<open>.order(column, { ascending: true })\<close> is a sort of
  the selected rows by that column, \<^verbatim>\<open>.limit(n)\<close> keeps the first \<open>n\<close> of them. The two
  time windows start \<open>30\<close> and \<open>7\<close> times \<^verbatim>\<open>24 * 60 * 60 * 1000\<close> milliseconds before the
  first and the second reading of \<^verbatim>\<open>Date.now()\<close>; the store reads the string that
  \<^verbatim>\<open>toISOString\<close> gives for that instant as the same instant.
\<close>

definition product_stats_query :: "world \<Rightarrow> uuid \<Rightarrow> product_row list" where
  "product_stats_query w retailerId = filter (\<lambda>p. p_retailer_id p = retailerId) (products w)"

definition recent_orders_query :: "env \<Rightarrow> world \<Rightarrow> uuid \<Rightarrow> order_row list" where
  "recent_orders_query env w retailerId =
     filter (\<lambda>ord. o_retailer_id ord = retailerId \<and>
                 instant env (o_created_at ord) \<ge>
                   of_int (Date_now env 1 - 30 * 24 * 60 * 60 * 1000))
       (orders w)"

definition low_stock_item_of :: "product_row \<Rightarrow> low_stock_item" where
  "low_stock_item_of p = \<lparr>ls_id = p_id p, ls_name = name p, ls_stock = stock p\<rparr>"

definition low_stock_query :: "world \<Rightarrow> uuid \<Rightarrow> low_stock_item list" where
  "low_stock_query w retailerId =
     map low_stock_item_of
       (take 10 (sort_key stock
          (filter (\<lambda>p. p_retailer_id p = retailerId \<and> is_active p = Some True \<and> stock p \<le> 5)
             (products w))))"

text \<open>
  The list as the specification words it, for comparison: ``the 10 lowest-stock active
  products (ascending by stock, capped at 10)'' of the tenant.
\<close>

definition ten_lowest_stock_active :: "world \<Rightarrow> uuid \<Rightarrow> low_stock_item list" where
  "ten_lowest_stock_active w retailerId =
     map low_stock_item_of
       (take 10 (sort_key stock
          (filter (\<lambda>p. p_retailer_id p = retailerId \<and> is_active p = Some True) (products w))))"

definition weekly_orders_query :: "env \<Rightarrow> world \<Rightarrow> uuid \<Rightarrow> order_row list" where
  "weekly_orders_query env w retailerId =
     sort_key (\<lambda>ord. instant env (o_created_at ord))
       (filter (\<lambda>ord. o_retailer_id ord = retailerId \<and>
                   instant env (o_created_at ord) \<ge>
                     of_int (Date_now env 2 - 7 * 24 * 60 * 60 * 1000))
          (orders w))"

text \<open>The counters over the fetched products and the fetched orders of the last 30 days.\<close>

definition product_stats_of :: "product_row list \<Rightarrow> product_stats" where
  "product_stats_of rows =
     \<lparr>total = length rows,
      active = length (filter (\<lambda>p. truthy (is_active p)) rows),
      inactive = length rows - length (filter (\<lambda>p. truthy (is_active p)) rows),
      outOfStock = length (filter (\<lambda>p. stock p = 0) rows)\<rparr>"

text \<open>
  \<^verbatim>\<open>parseFloat(order.total_amount || 0)\<close>: a zero amount is replaced by the number \<open>0\<close>, and
  \<^verbatim>\<open>parseFloat\<close> of a number is that number.
\<close>

definition amount_or_0 :: "rat \<Rightarrow> rat" where
  "amount_or_0 x = (if x = 0 then 0 else x)"

definition totalRevenue :: "order_row list \<Rightarrow> rat" where
  "totalRevenue recentOrders =
     foldl (\<lambda>sum ord. sum + amount_or_0 (total_amount ord)) 0
       (filter (\<lambda>ord. status ord = ''delivered'') recentOrders)"

definition order_stats_of :: "order_row list \<Rightarrow> order_stats" where
  "order_stats_of recentOrders =
     \<lparr>totalLast30Days = length recentOrders,
      pending = length (filter (\<lambda>ord. status ord = ''pending'') recentOrders),
      delivered = length (filter (\<lambda>ord. status ord = ''delivered'') recentOrders),
      revenueLast30Days = toFixed2 (totalRevenue recentOrders)\<rparr>"

text \<open>
  The object \<^verbatim>\<open>dailyOrders\<close>: its own properties in the order of their creation, which is
  the order of \<^verbatim>\<open>Object.keys\<close> for keys that are not array indices (dates are not).
\<close>

type_synonym daily = "(string \<times> nat) list"

fun obj_set :: "string \<Rightarrow> nat \<Rightarrow> daily \<Rightarrow> daily" where
  "obj_set k v [] = [(k, v)]"
| "obj_set k v ((k', v') # kvs) =
     (if k' = k then (k', v) # kvs else (k', v') # obj_set k v kvs)"

fun obj_incr :: "string \<Rightarrow> daily \<Rightarrow> daily" where
  "obj_incr k [] = []"
| "obj_incr k ((k', v') # kvs) =
     (if k' = k then (k', v' + 1) # kvs else (k', v') # obj_incr k kvs)"

definition hasOwnProperty :: "daily \<Rightarrow> string \<Rightarrow> bool" where
  "hasOwnProperty obj k = (k \<in> set (map fst obj))"

text \<open>
  The key that the round \<open>i\<close> of the loop writes, \<^verbatim>\<open>date.toISOString().split('T')[0]\<close> for
  \<^verbatim>\<open>date = new Date(Date.now() - i * 24 * 60 * 60 * 1000)\<close>. Every round reads the clock
  anew: after the two readings of the queries, the round \<open>i = 6\<close> takes the third reading
  and the round \<open>i = 0\<close> the ninth, so the round \<open>i\<close> takes the reading \<open>9 - i\<close>.
\<close>

definition day_key :: "env \<Rightarrow> nat \<Rightarrow> string" where
  "day_key env i =
     split_T_0 (toISOString (Date_now env (9 - i) - int i * 24 * 60 * 60 * 1000))"

text \<open>The loop \<^verbatim>\<open>for (let i = 6; i >= 0; i--)\<close>, started with \<open>i = 6\<close>.\<close>

fun seed_days :: "env \<Rightarrow> nat \<Rightarrow> daily \<Rightarrow> daily" where
  "seed_days env 0 obj = obj_set (day_key env 0) 0 obj"
| "seed_days env (Suc i) obj = seed_days env i (obj_set (day_key env (Suc i)) 0 obj)"

definition count_order :: "daily \<Rightarrow> order_row \<Rightarrow> daily" where
  "count_order obj ord =
     (if hasOwnProperty obj (split_T_0 (o_created_at ord))
      then obj_incr (split_T_0 (o_created_at ord)) obj else obj)"

definition dailyOrders :: "env \<Rightarrow> order_row list \<Rightarrow> daily" where
  "dailyOrders env weeklyOrders = foldl count_order (seed_days env 6 []) weeklyOrders"

definition chartData :: "daily \<Rightarrow> chart_point list" where
  "chartData obj = map (\<lambda>k. \<lparr>date = k, orders_on = map_of obj k\<rparr>) (map fst obj)"

definition dashboard_error :: "world \<Rightarrow> pg_error \<Rightarrow> outcome \<times> world" where
  "dashboard_error w error =
     (Thrown error, w\<lparr>console := console w @ [ConsoleError ''Dashboard error:'' error]\<rparr>)"

definition dashboard_data :: "env \<Rightarrow> world \<Rightarrow> retailer \<Rightarrow> dashboard" where
  "dashboard_data env w retailer =
     \<lparr>store = retailer,
      productStats = product_stats_of (product_stats_query w (r_id retailer)),
      orderStats = order_stats_of (recent_orders_query env w (r_id retailer)),
      lowStockProducts = low_stock_query w (r_id retailer),
      weeklyOrderChart = chartData (dailyOrders env (weekly_orders_query env w (r_id retailer)))\<rparr>"

text \<open>The first error among the four answers, in the order in which the handler tests them.\<close>

definition first_error :: "env \<Rightarrow> pg_error option" where
  "first_error env =
     (case fails env 1 of Some productError \<Rightarrow> Some productError | None \<Rightarrow>
     (case fails env 2 of Some orderError \<Rightarrow> Some orderError | None \<Rightarrow>
     (case fails env 3 of Some lowStockError \<Rightarrow> Some lowStockError | None \<Rightarrow>
      fails env 4)))"

definition getDashboard :: "env \<Rightarrow> world \<Rightarrow> retailer \<Rightarrow> outcome \<times> world" where
  "getDashboard env w retailer =
     (case first_error env of
        Some error \<Rightarrow> dashboard_error w error
      | None \<Rightarrow> (Sent 200 True None (DashboardData (dashboard_data env w retailer)), w))"

subsection \<open>A shop to run the handlers on\<close>

text \<open>
  One retailer with one product (stock 20, price 100), the order bodies of the end-to-end
  scenario, and environments in which the store answers every call, refuses the stock
  write of \<^verbatim>\<open>createOrder\<close>, or refuses the product lookup of \<^verbatim>\<open>deleteOrder\<close>.
\<close>

definition demo_retailer :: retailer where
  "demo_retailer =
     \<lparr>r_id = ''0b7e6c1a-52f3-4d8e-9a41-3c5d7e9f1a20'',
      r_user_id = ''5f2d9c3e-8a14-4b67-b0c2-6e1f4a8d7b39'',
      r_name = ''Corner Shop'',
      r_email = ''owner@cornershop.example'',
      r_theme = ''default''\<rparr>"

definition widget :: product_row where
  "widget =
     \<lparr>p_id = ''c4a1e8d2-3b5f-4c7a-8e9d-1f2a3b4c5d6e'',
      p_retailer_id = ''0b7e6c1a-52f3-4d8e-9a41-3c5d7e9f1a20'',
      name = ''Widget'',
      description = None,
      price = 100,
      stock = 20,
      category = Some ''tools'',
      image_url = None,
      is_active = Some True,
      p_created_at = ''2024-01-01T08:00:00+00:00'',
      p_updated_at = ''2024-01-01T08:00:00+00:00''\<rparr>"

definition shop :: world where
  "shop = \<lparr>products = [widget], orders = [], console = []\<rparr>"

definition order_for :: "int \<Rightarrow> order_body" where
  "order_for n =
     \<lparr>body_customer_name = ''Ada'',
      body_customer_email = None,
      body_customer_phone = None,
      body_product_id = ''c4a1e8d2-3b5f-4c7a-8e9d-1f2a3b4c5d6e'',
      body_quantity = n,
      body_notes = None\<rparr>"

text \<open>
  The runtime of the examples: every reading of the clock is 2024-01-05 10:00 UTC, and the
  instants of the stored timestamps that occur are tabulated.
\<close>

definition demo_instant :: "timestamptz \<Rightarrow> rat" where
  "demo_instant t =
     (if t = ''2024-01-05T09:30:00+00:00'' then 1704447000000
      else if t = ''2024-01-04T23:59:59+00:00'' then 1704412799000
      else if t = ''2024-01-04T07:15:00+00:00'' then 1704352500000
      else if t = ''2023-12-31T10:00:00+00:00'' then 1704016800000
      else if t = ''2023-12-20T12:00:00+00:00'' then 1703073600000
      else 0)"

definition calm :: env where
  "calm =
     \<lparr>fails = (\<lambda>k. None),
      gen_random_uuid = ''e9f8d7c6-b5a4-4321-9abc-def012345678'',
      NOW = ''2024-01-05T10:00:00+00:00'',
      Date_now = (\<lambda>k. 1704448800000),
      instant = demo_instant\<rparr>"

definition refusing :: "nat \<Rightarrow> env" where
  "refusing k = calm\<lparr>fails := (\<lambda>j. if j = k then Some (PgError ''57P01'') else None)\<rparr>"

text \<open>The order that Ada places for two widgets, and the shop after it.\<close>

definition adas_order :: order_row where
  "adas_order =
     \<lparr>o_id = ''e9f8d7c6-b5a4-4321-9abc-def012345678'',
      o_retailer_id = ''0b7e6c1a-52f3-4d8e-9a41-3c5d7e9f1a20'',
      customer_name = ''Ada'',
      customer_email = None,
      customer_phone = None,
      product_id = ''c4a1e8d2-3b5f-4c7a-8e9d-1f2a3b4c5d6e'',
      quantity = 2,
      unit_price = 100,
      total_amount = 200,
      status = ''pending'',
      order_notes = None,
      o_created_at = ''2024-01-05T10:00:00+00:00'',
      o_updated_at = ''2024-01-05T10:00:00+00:00''\<rparr>"

definition shop_with_order :: world where
  "shop_with_order =
     \<lparr>products = [widget\<lparr>stock := 18, p_updated_at := ''2024-01-05T10:00:00+00:00''\<rparr>],
      orders = [adas_order],
      console = []\<rparr>"

text \<open>A later request, one hour on.\<close>

definition later :: env where
  "later = calm\<lparr>NOW := ''2024-01-05T11:00:00+00:00''\<rparr>"

text \<open>A shop with three products and four orders of the last weeks, for the dashboard.\<close>

definition gadget :: product_row where
  "gadget =
     widget\<lparr>p_id := ''a1b2c3d4-e5f6-4789-8abc-0123456789ab'', name := ''Gadget'', price := 101 / 2,
       stock := 3\<rparr>"

definition gizmo :: product_row where
  "gizmo =
     widget\<lparr>p_id := ''f0e1d2c3-b4a5-4697-8876-5a4b3c2d1e0f'', name := ''Gizmo'', price := 75,
       stock := 0, is_active := Some False\<rparr>"

definition past_order :: "uuid \<Rightarrow> string \<Rightarrow> rat \<Rightarrow> timestamptz \<Rightarrow> order_row" where
  "past_order i st amount t =
     adas_order\<lparr>o_id := i, quantity := 1, unit_price := amount, total_amount := amount,
       status := st, o_created_at := t, o_updated_at := t\<rparr>"

definition busy_shop :: world where
  "busy_shop =
     \<lparr>products = [widget, gadget, gizmo],
      orders =
        [past_order ''00000000-0000-4000-8000-000000000004'' ''delivered'' 75
           ''2023-12-20T12:00:00+00:00'',
         past_order ''00000000-0000-4000-8000-000000000003'' ''delivered'' (101 / 2)
           ''2024-01-04T07:15:00+00:00'',
         past_order ''00000000-0000-4000-8000-000000000002'' ''pending'' 999
           ''2024-01-04T23:59:59+00:00'',
         past_order ''00000000-0000-4000-8000-000000000001'' ''delivered'' 200
           ''2024-01-05T09:30:00+00:00''],
      console = []\<rparr>"

text \<open>
  A product whose flag is \<^verbatim>\<open>NULL\<close>, as \<^verbatim>\<open>PUT /products/:id\<close> with the body
  \<^verbatim>\<open>{ "is_active": null }\<close> leaves it: \<^verbatim>\<open>updateProduct\<close> copies every key of the body that is
  not \<^verbatim>\<open>undefined\<close>, and \<^verbatim>\<open>validateProductUpdate\<close> has no rule for \<^verbatim>\<open>is_active\<close>.
\<close>

definition whatsit :: product_row where
  "whatsit =
     widget\<lparr>p_id := ''7d3c2b1a-9e8f-4a6b-8c5d-4e3f2a1b0c9d'', name := ''Whatsit'',
       is_active := None\<rparr>"

definition odd_shop :: world where
  "odd_shop = \<lparr>products = [whatsit], orders = [], console = []\<rparr>"

text \<open>
  A request for the dashboard around midnight: the clock reads 2024-01-05 23:59:59.999 UTC
  up to the first round of the loop (readings 1 to 3) and 2024-01-06 00:00:00.000 UTC from
  the second round on (readings 4 to 9). The shop has one order, of 2023-12-31 10:00 UTC.
\<close>

definition midnight :: env where
  "midnight = calm\<lparr>Date_now := (\<lambda>k. if k \<le> 3 then 1704499199999 else 1704499200000)\<rparr>"

definition new_year_shop :: world where
  "new_year_shop =
     \<lparr>products = [widget],
      orders =
        [past_order ''00000000-0000-4000-8000-000000000005'' ''delivered'' 100
           ''2023-12-31T10:00:00+00:00''],
      console = []\<rparr>"

section \<open>Properties of the handlers\<close>

subsection \<open>Auxiliary facts\<close>

lemma single_Inr: "single rs = Inr r \<longleftrightarrow> rs = [r]"
  by (cases rs rule: single.cases) auto

lemma filter_singleton_mem: "filter P xs = [x] \<Longrightarrow> x \<in> set xs \<and> P x"
proof -
  assume "filter P xs = [x]"
  then have "x \<in> set (filter P xs)" by simp
  then show ?thesis by simp
qed

lemma fetch_product_Inr:
  "fetch_product env w retailerId body = Inr product \<longleftrightarrow>
     fails env 1 = None \<and>
     filter (\<lambda>p. p_id p = body_product_id body \<and> p_retailer_id p = retailerId \<and>
              is_active p = Some True)
       (products w) = [product]"
  by (simp add: fetch_product_def answer_def single_Inr split: option.splits)

lemma shop_fetch_widget:
  "filter (\<lambda>p. p_id p = body_product_id (order_for n) \<and> p_retailer_id p = r_id demo_retailer \<and>
              is_active p = Some True) (products shop) = [widget]"
  by (simp add: shop_def widget_def order_for_def demo_retailer_def)

lemma show_int_20: "show_int 20 = ''20''"
  by code_simp

lemma show_int_100: "show_int 100 = ''100''"
  by code_simp

subsection \<open>Order creation\<close>

text \<open>
  Claim C1. When the store answers the product lookup with the retailer's active product
  and the requested quantity exceeds that product's stock, \<^verbatim>\<open>createOrder\<close> answers 400 with
  the message that reports the available and the requested quantity, and the store is
  left exactly as it was: no order row is added and no stock is written.
\<close>

theorem createOrder_insufficient_stock:
  assumes "fails env 1 = None"
    and "filter (\<lambda>p. p_id p = body_product_id body \<and> p_retailer_id p = retailerId \<and>
              is_active p = Some True)
           (products w) = [product]"
    and "stock product < body_quantity body"
  shows "createOrder env w retailerId body =
           (Sent 400 False
              (Some (''Insufficient stock. Available: '' @ show_int (stock product) @
                     '', Requested: '' @ show_int (body_quantity body))) NoData, w)"
  using assms
  by (simp add: createOrder_def fetch_product_def answer_def insufficient_stock_message_def)

theorem createOrder_insufficient_stock_witness:
  "fails calm 1 = None \<and>
   filter (\<lambda>p. p_id p = body_product_id (order_for 100) \<and> p_retailer_id p = r_id demo_retailer \<and>
              is_active p = Some True) (products shop) = [widget] \<and>
   stock widget < body_quantity (order_for 100) \<and>
   createOrder calm shop (r_id demo_retailer) (order_for 100) =
     (Sent 400 False (Some ''Insufficient stock. Available: 20, Requested: 100'') NoData, shop)"
proof -
  have h1: "fails calm 1 = None"
    by (simp add: calm_def)
  have h3: "stock widget < body_quantity (order_for 100)"
    by (simp add: widget_def order_for_def)
  have "createOrder calm shop (r_id demo_retailer) (order_for 100) =
     (Sent 400 False (Some ''Insufficient stock. Available: 20, Requested: 100'') NoData, shop)"
    using createOrder_insufficient_stock [OF h1 shop_fetch_widget h3]
    by (simp add: widget_def order_for_def show_int_20 show_int_100)
  with h1 shop_fetch_widget h3 show ?thesis
    by blast
qed

text \<open>
  Claim C5. When the order row has been inserted and the store then refuses the stock
  write, \<^verbatim>\<open>createOrder\<close> still answers 201 with the order; the error is written to the
  console, the order row stays in the table and the products table is untouched, so the
  stock is not decremented.
\<close>

theorem createOrder_stock_write_fails:
  assumes "fails env 1 = None"
    and "filter (\<lambda>p. p_id p = body_product_id body \<and> p_retailer_id p = retailerId \<and>
              is_active p = Some True)
           (products w) = [product]"
    and "\<not> stock product < body_quantity body"
    and "fails env 2 = None"
    and "fails env 3 = Some stockError"
  shows "createOrder env w retailerId body =
           (Sent 201 True (Some ''Order created successfully'')
              (OrderData (new_order env retailerId body product)
                 (embed_product (products w) (new_order env retailerId body product))),
            w\<lparr>orders := orders w @ [new_order env retailerId body product],
              console := console w @ [ConsoleError ''Stock update failed:'' stockError]\<rparr>)"
proof -
  have "fetch_product env w retailerId body = Inr product"
    using assms(1,2) by (simp add: fetch_product_Inr)
  then show ?thesis
    using assms(3,4,5) by (simp add: createOrder_def decrement_stock_def)
qed

theorem createOrder_stock_write_fails_witness:
  "fails (refusing 3) 1 = None \<and> fails (refusing 3) 2 = None \<and>
   fails (refusing 3) 3 = Some (PgError ''57P01'') \<and>
   \<not> stock widget < body_quantity (order_for 2) \<and>
   createOrder (refusing 3) shop (r_id demo_retailer) (order_for 2) =
     (Sent 201 True (Some ''Order created successfully'')
        (OrderData adas_order
           (Some \<lparr>s_name = ''Widget'', s_category = Some ''tools'', s_image_url = None\<rparr>)),
      \<lparr>products = [widget], orders = [adas_order],
        console = [ConsoleError ''Stock update failed:'' (PgError ''57P01'')]\<rparr>)"
proof -
  have h1: "fails (refusing 3) 1 = None" and h4: "fails (refusing 3) 2 = None"
    and h5: "fails (refusing 3) 3 = Some (PgError ''57P01'')"
    by (simp_all add: refusing_def)
  have h3: "\<not> stock widget < body_quantity (order_for 2)"
    by (simp add: widget_def order_for_def)
  have row: "new_order (refusing 3) (r_id demo_retailer) (order_for 2) widget = adas_order"
    by (simp add: new_order_def refusing_def calm_def demo_retailer_def order_for_def widget_def
        adas_order_def)
  have emb: "embed_product [widget] adas_order =
      Some \<lparr>s_name = ''Widget'', s_category = Some ''tools'', s_image_url = None\<rparr>"
    by (simp add: embed_product_def widget_def adas_order_def)
  have "createOrder (refusing 3) shop (r_id demo_retailer) (order_for 2) =
     (Sent 201 True (Some ''Order created successfully'')
        (OrderData adas_order
           (Some \<lparr>s_name = ''Widget'', s_category = Some ''tools'', s_image_url = None\<rparr>)),
      \<lparr>products = [widget], orders = [adas_order],
        console = [ConsoleError ''Stock update failed:'' (PgError ''57P01'')]\<rparr>)"
    using createOrder_stock_write_fails [OF h1 shop_fetch_widget h3 h4 h5]
    by (simp add: row) (simp add: shop_def emb)
  with h1 h3 h4 h5 show ?thesis
    by blast
qed




subsection \<open>Order deletion\<close>

lemma fetch_order_Inr:
  "fetch_order env w retailerId id' = Inr ord \<longleftrightarrow>
     fails env 1 = None \<and>
     filter (\<lambda>ord. o_id ord = id' \<and> o_retailer_id ord = retailerId) (orders w) = [ord]"
  by (simp add: fetch_order_def answer_def single_Inr split: option.splits)

lemma restore_stock_skipped:
  assumes "status ord = ''pending''"
    and "fails env 2 \<noteq> None \<or> filter (\<lambda>p. p_id p = product_id ord) (products w) = []"
  shows "restore_stock env w ord = w"
  using assms by (auto simp: restore_stock_def answer_def split: option.splits)

lemma restore_stock_done:
  assumes "status ord = ''pending''"
    and "fails env 2 = None"
    and "filter (\<lambda>p. p_id p = product_id ord) (products w) = [product]"
    and "fails env 3 = None"
  shows "restore_stock env w ord =
           w\<lparr>products :=
               map (\<lambda>r. if p_id r = product_id ord
                        then r\<lparr>stock := stock product + quantity ord, p_updated_at := NOW env\<rparr>
                        else r) (products w)\<rparr>"
  using assms by (simp add: restore_stock_def answer_def update_products_def)

lemma restore_stock_other:
  "status ord \<noteq> ''pending'' \<Longrightarrow> restore_stock env w ord = w"
  by (simp add: restore_stock_def)

text \<open>
  Claim C10. When a \<^verbatim>\<open>pending\<close> order is deleted and the lookup of its product is refused
  or finds no row, nothing is logged and no product row is written; the order row is
  deleted all the same and the answer is 200.
\<close>

theorem deleteOrder_restore_skipped:
  assumes "fails env 1 = None"
    and "filter (\<lambda>ord. o_id ord = id' \<and> o_retailer_id ord = retailerId) (orders w) = [ord]"
    and "status ord = ''pending''"
    and "fails env 2 \<noteq> None \<or> filter (\<lambda>p. p_id p = product_id ord) (products w) = []"
    and "fails env 4 = None"
  shows "deleteOrder env w retailerId id' =
           (Sent 200 True (Some ''Order deleted successfully'') NoData,
            w\<lparr>orders :=
                filter (\<lambda>ord. \<not> (o_id ord = id' \<and> o_retailer_id ord = retailerId)) (orders w)\<rparr>)"
proof -
  have "fetch_order env w retailerId id' = Inr ord"
    using assms(1,2) by (simp add: fetch_order_Inr)
  moreover have "restore_stock env w ord = w"
    using assms(3,4) by (rule restore_stock_skipped)
  ultimately show ?thesis
    using assms(3,5) by (simp add: deleteOrder_def delete_order_rows_def)
qed

theorem deleteOrder_restore_skipped_witness:
  "fails (refusing 2) 1 = None \<and>
   filter (\<lambda>ord. o_id ord = o_id adas_order \<and> o_retailer_id ord = r_id demo_retailer)
     (orders shop_with_order) = [adas_order] \<and>
   status adas_order = ''pending'' \<and>
   fails (refusing 2) 2 \<noteq> None \<and>
   fails (refusing 2) 4 = None \<and>
   deleteOrder (refusing 2) shop_with_order (r_id demo_retailer) (o_id adas_order) =
     (Sent 200 True (Some ''Order deleted successfully'') NoData,
      \<lparr>products = products shop_with_order, orders = [], console = []\<rparr>)"
proof -
  have h1: "fails (refusing 2) 1 = None" and h4: "fails (refusing 2) 2 \<noteq> None"
    and h5: "fails (refusing 2) 4 = None"
    by (simp_all add: refusing_def)
  have h2: "filter (\<lambda>ord. o_id ord = o_id adas_order \<and> o_retailer_id ord = r_id demo_retailer)
     (orders shop_with_order) = [adas_order]"
    by (simp add: shop_with_order_def adas_order_def demo_retailer_def)
  have h3: "status adas_order = ''pending''"
    by (simp add: adas_order_def)
  have "deleteOrder (refusing 2) shop_with_order (r_id demo_retailer) (o_id adas_order) =
     (Sent 200 True (Some ''Order deleted successfully'') NoData,
      \<lparr>products = products shop_with_order, orders = [], console = []\<rparr>)"
    using deleteOrder_restore_skipped [OF h1 h2 h3 disjI1 [OF h4] h5]
    by (simp add: shop_with_order_def adas_order_def demo_retailer_def)
  with h1 h2 h3 h4 h5 show ?thesis
    by blast
qed

text \<open>
  Claim C4, as stated, fails in its third part: Ada's pending order for two is deleted with
  answer 200 while the store refuses the lookup of the widget, and the stock of 18 is not
  raised to 20.
\<close>

theorem deleteOrder_cases_counterexample:
  "status adas_order = ''pending'' \<and> quantity adas_order = 2 \<and>
   map stock (products shop_with_order) = [18] \<and>
   fst (deleteOrder (refusing 2) shop_with_order (r_id demo_retailer) (o_id adas_order)) =
     Sent 200 True (Some ''Order deleted successfully'') NoData \<and>
   orders (snd (deleteOrder (refusing 2) shop_with_order (r_id demo_retailer) (o_id adas_order))) = [] \<and>
   map stock
     (products (snd (deleteOrder (refusing 2) shop_with_order (r_id demo_retailer) (o_id adas_order))))
     = [18]"
  by code_simp

text \<open>
  Claim C4, amended. With the store answering the lookup of the order: when the retailer
  has no order with the given id the answer is 404 and nothing changes; when the order is
  neither \<^verbatim>\<open>pending\<close> nor \<^verbatim>\<open>cancelled\<close> the answer is 409 and nothing changes; when it is
  \<^verbatim>\<open>pending\<close> and the store answers the product lookup with the product's row and accepts
  the stock write, the product's stock is rewritten to its fetched value plus the order's
  quantity, and only then is the delete sent: accepted, it removes the order row and the
  answer is 200, refused, the error is thrown with the stock already given back; when the
  order is \<^verbatim>\<open>cancelled\<close> and the delete is accepted, the order row is removed, the products
  table is untouched and the answer is 200.
\<close>

theorem deleteOrder_cases:
  assumes "fails env 1 = None"
  shows "(filter (\<lambda>ord. o_id ord = id' \<and> o_retailer_id ord = retailerId) (orders w) = [] \<longrightarrow>
            deleteOrder env w retailerId id' =
              (Sent 404 False (Some ''Order not found'') NoData, w)) \<and>
         (filter (\<lambda>ord. o_id ord = id' \<and> o_retailer_id ord = retailerId) (orders w) = [ord] \<longrightarrow>
            (status ord \<noteq> ''pending'' \<and> status ord \<noteq> ''cancelled'' \<longrightarrow>
               deleteOrder env w retailerId id' =
                 (Sent 409 False (Some ''Only pending or cancelled orders can be deleted'') NoData,
                  w)) \<and>
            (status ord = ''pending'' \<and> fails env 2 = None \<and>
             filter (\<lambda>p. p_id p = product_id ord) (products w) = [product] \<and>
             fails env 3 = None \<longrightarrow>
               deleteOrder env w retailerId id' =
                 (case fails env 4 of
                    None \<Rightarrow>
                      (Sent 200 True (Some ''Order deleted successfully'') NoData,
                       w\<lparr>products :=
                           map (\<lambda>r. if p_id r = product_id ord
                                    then r\<lparr>stock := stock product + quantity ord,
                                           p_updated_at := NOW env\<rparr>
                                    else r) (products w),
                         orders :=
                           filter (\<lambda>ord. \<not> (o_id ord = id' \<and> o_retailer_id ord = retailerId))
                             (orders w)\<rparr>)
                  | Some deleteError \<Rightarrow>
                      (Thrown deleteError,
                       w\<lparr>products :=
                           map (\<lambda>r. if p_id r = product_id ord
                                    then r\<lparr>stock := stock product + quantity ord,
                                           p_updated_at := NOW env\<rparr>
                                    else r) (products w)\<rparr>))) \<and>
            (status ord = ''cancelled'' \<and> fails env 4 = None \<longrightarrow>
               deleteOrder env w retailerId id' =
                 (Sent 200 True (Some ''Order deleted successfully'') NoData,
                  w\<lparr>orders :=
                      filter (\<lambda>ord. \<not> (o_id ord = id' \<and> o_retailer_id ord = retailerId))
                        (orders w)\<rparr>)))"
proof (intro conjI impI)
  assume "filter (\<lambda>ord. o_id ord = id' \<and> o_retailer_id ord = retailerId) (orders w) = []"
  then show "deleteOrder env w retailerId id' =
      (Sent 404 False (Some ''Order not found'') NoData, w)"
    using assms by (simp add: deleteOrder_def fetch_order_def answer_def)
next
  assume one: "filter (\<lambda>ord. o_id ord = id' \<and> o_retailer_id ord = retailerId) (orders w) = [ord]"
    and st: "status ord \<noteq> ''pending'' \<and> status ord \<noteq> ''cancelled''"
  from assms one have "fetch_order env w retailerId id' = Inr ord"
    by (simp add: fetch_order_Inr)
  with st show "deleteOrder env w retailerId id' =
      (Sent 409 False (Some ''Only pending or cancelled orders can be deleted'') NoData, w)"
    by (simp add: deleteOrder_def)
next
  assume one: "filter (\<lambda>ord. o_id ord = id' \<and> o_retailer_id ord = retailerId) (orders w) = [ord]"
    and h: "status ord = ''pending'' \<and> fails env 2 = None \<and>
       filter (\<lambda>p. p_id p = product_id ord) (products w) = [product] \<and> fails env 3 = None"
  from assms one have f: "fetch_order env w retailerId id' = Inr ord"
    by (simp add: fetch_order_Inr)
  from h have r: "restore_stock env w ord =
      w\<lparr>products :=
          map (\<lambda>r. if p_id r = product_id ord
                   then r\<lparr>stock := stock product + quantity ord, p_updated_at := NOW env\<rparr>
                   else r) (products w)\<rparr>"
    by (intro restore_stock_done) simp_all
  from h show "deleteOrder env w retailerId id' =
     (case fails env 4 of
        None \<Rightarrow>
          (Sent 200 True (Some ''Order deleted successfully'') NoData,
           w\<lparr>products :=
               map (\<lambda>r. if p_id r = product_id ord
                        then r\<lparr>stock := stock product + quantity ord, p_updated_at := NOW env\<rparr>
                        else r) (products w),
             orders :=
               filter (\<lambda>ord. \<not> (o_id ord = id' \<and> o_retailer_id ord = retailerId)) (orders w)\<rparr>)
      | Some deleteError \<Rightarrow>
          (Thrown deleteError,
           w\<lparr>products :=
               map (\<lambda>r. if p_id r = product_id ord
                        then r\<lparr>stock := stock product + quantity ord, p_updated_at := NOW env\<rparr>
                        else r) (products w)\<rparr>))"
    by (simp add: deleteOrder_def f r delete_order_rows_def split: option.splits)
next
  assume one: "filter (\<lambda>ord. o_id ord = id' \<and> o_retailer_id ord = retailerId) (orders w) = [ord]"
    and h: "status ord = ''cancelled'' \<and> fails env 4 = None"
  from assms one have f: "fetch_order env w retailerId id' = Inr ord"
    by (simp add: fetch_order_Inr)
  from h have "restore_stock env w ord = w"
    by (intro restore_stock_other) simp
  with h show "deleteOrder env w retailerId id' =
      (Sent 200 True (Some ''Order deleted successfully'') NoData,
       w\<lparr>orders :=
           filter (\<lambda>ord. \<not> (o_id ord = id' \<and> o_retailer_id ord = retailerId)) (orders w)\<rparr>)"
    by (simp add: deleteOrder_def f delete_order_rows_def)
qed

theorem deleteOrder_cases_witness:
  "deleteOrder calm shop (r_id demo_retailer) (o_id adas_order) =
     (Sent 404 False (Some ''Order not found'') NoData, shop) \<and>
   deleteOrder calm busy_shop (r_id demo_retailer) ''00000000-0000-4000-8000-000000000001'' =
     (Sent 409 False (Some ''Only pending or cancelled orders can be deleted'') NoData, busy_shop) \<and>
   deleteOrder later shop_with_order (r_id demo_retailer) (o_id adas_order) =
     (Sent 200 True (Some ''Order deleted successfully'') NoData,
      \<lparr>products = [widget\<lparr>stock := 18 + 2, p_updated_at := ''2024-01-05T11:00:00+00:00''\<rparr>],
        orders = [], console = []\<rparr>) \<and>
   deleteOrder (later\<lparr>fails := (\<lambda>k. if k = 4 then Some (PgError ''57P01'') else None)\<rparr>)
       shop_with_order (r_id demo_retailer) (o_id adas_order) =
     (Thrown (PgError ''57P01''),
      \<lparr>products = [widget\<lparr>stock := 18 + 2, p_updated_at := ''2024-01-05T11:00:00+00:00''\<rparr>],
        orders = [adas_order], console = []\<rparr>) \<and>
   deleteOrder later (shop_with_order\<lparr>orders := [adas_order\<lparr>status := ''cancelled''\<rparr>]\<rparr>)
       (r_id demo_retailer) (o_id adas_order) =
     (Sent 200 True (Some ''Order deleted successfully'') NoData,
      \<lparr>products = [widget\<lparr>stock := 18, p_updated_at := ''2024-01-05T10:00:00+00:00''\<rparr>],
        orders = [], console = []\<rparr>)"
proof -
  have c1: "fails calm 1 = None" and l1: "fails later 1 = None"
    and r1: "fails (later\<lparr>fails := (\<lambda>k. if k = 4 then Some (PgError ''57P01'') else None)\<rparr>) 1 = None"
    by (simp_all add: calm_def later_def)
  have a: "deleteOrder calm shop (r_id demo_retailer) (o_id adas_order) =
     (Sent 404 False (Some ''Order not found'') NoData, shop)"
    using deleteOrder_cases [where env = calm and w = shop and id' = "o_id adas_order"
        and retailerId = "r_id demo_retailer", OF c1]
    by (simp add: shop_def)
  have b: "deleteOrder calm busy_shop (r_id demo_retailer) ''00000000-0000-4000-8000-000000000001'' =
     (Sent 409 False (Some ''Only pending or cancelled orders can be deleted'') NoData, busy_shop)"
    using deleteOrder_cases [where env = calm and w = busy_shop
        and id' = "''00000000-0000-4000-8000-000000000001''"
        and retailerId = "r_id demo_retailer"
        and ord = "past_order ''00000000-0000-4000-8000-000000000001'' ''delivered'' 200
           ''2024-01-05T09:30:00+00:00''", OF c1]
    by (simp add: busy_shop_def past_order_def adas_order_def demo_retailer_def)
  have c: "deleteOrder later shop_with_order (r_id demo_retailer) (o_id adas_order) =
     (Sent 200 True (Some ''Order deleted successfully'') NoData,
      \<lparr>products = [widget\<lparr>stock := 18 + 2, p_updated_at := ''2024-01-05T11:00:00+00:00''\<rparr>],
        orders = [], console = []\<rparr>)"
    using deleteOrder_cases [where env = later and w = shop_with_order and id' = "o_id adas_order"
        and retailerId = "r_id demo_retailer" and ord = adas_order
        and product = "widget\<lparr>stock := 18, p_updated_at := ''2024-01-05T10:00:00+00:00''\<rparr>", OF l1]
    by (simp add: shop_with_order_def adas_order_def demo_retailer_def widget_def later_def
        calm_def)
  have d: "deleteOrder (later\<lparr>fails := (\<lambda>k. if k = 4 then Some (PgError ''57P01'') else None)\<rparr>)
       shop_with_order (r_id demo_retailer) (o_id adas_order) =
     (Thrown (PgError ''57P01''),
      \<lparr>products = [widget\<lparr>stock := 18 + 2, p_updated_at := ''2024-01-05T11:00:00+00:00''\<rparr>],
        orders = [adas_order], console = []\<rparr>)"
    using deleteOrder_cases [where
        env = "later\<lparr>fails := (\<lambda>k. if k = 4 then Some (PgError ''57P01'') else None)\<rparr>"
        and w = shop_with_order and id' = "o_id adas_order"
        and retailerId = "r_id demo_retailer" and ord = adas_order
        and product = "widget\<lparr>stock := 18, p_updated_at := ''2024-01-05T10:00:00+00:00''\<rparr>", OF r1]
    by (simp add: shop_with_order_def adas_order_def demo_retailer_def widget_def later_def
        calm_def)
  have e: "deleteOrder later (shop_with_order\<lparr>orders := [adas_order\<lparr>status := ''cancelled''\<rparr>]\<rparr>)
       (r_id demo_retailer) (o_id adas_order) =
     (Sent 200 True (Some ''Order deleted successfully'') NoData,
      \<lparr>products = [widget\<lparr>stock := 18, p_updated_at := ''2024-01-05T10:00:00+00:00''\<rparr>],
        orders = [], console = []\<rparr>)"
    using deleteOrder_cases [where env = later
        and w = "shop_with_order\<lparr>orders := [adas_order\<lparr>status := ''cancelled''\<rparr>]\<rparr>"
        and id' = "o_id adas_order" and retailerId = "r_id demo_retailer"
        and ord = "adas_order\<lparr>status := ''cancelled''\<rparr>", OF l1]
    by (simp add: shop_with_order_def adas_order_def demo_retailer_def later_def calm_def)
  from a b c d e show ?thesis
    by blast
qed

subsection \<open>Product deletion and status toggle\<close>

lemma filter_singleton_only: "filter P xs = [x] \<Longrightarrow> y \<in> set xs \<Longrightarrow> P y \<Longrightarrow> y = x"
proof -
  assume one: "filter P xs = [x]" and "y \<in> set xs" and "P y"
  from \<open>y \<in> set xs\<close> \<open>P y\<close> have "y \<in> set (filter P xs)" by simp
  then have "y \<in> set [x]" unfolding one .
  then show ?thesis by simp
qed

text \<open>
  Claim C8. With the store answering the lookup of referencing orders: when at least one
  order references the product, \<^verbatim>\<open>deleteProduct\<close> answers 409 and the store is left as it
  was; when no order references it and the store accepts the delete, the answer is 200 and
  the retailer's product with that id is removed (no other row is touched).
\<close>

theorem deleteProduct_guard:
  assumes "fails env 1 = None"
  shows "((\<exists>ord \<in> set (orders w). product_id ord = id') \<longrightarrow>
            deleteProduct env w retailerId id' =
              (Sent 409 False
                 (Some ''Cannot delete product that has existing orders. Consider deactivating it instead.'')
                 NoData, w)) \<and>
         ((\<forall>ord \<in> set (orders w). product_id ord \<noteq> id') \<and> fails env 2 = None \<longrightarrow>
            deleteProduct env w retailerId id' =
              (Sent 200 True (Some ''Product deleted successfully'') NoData,
               w\<lparr>products :=
                   filter (\<lambda>p. \<not> (p_id p = id' \<and> p_retailer_id p = retailerId)) (products w)\<rparr>))"
proof (intro conjI impI)
  assume "\<exists>ord \<in> set (orders w). product_id ord = id'"
  then have "filter (\<lambda>ord. product_id ord = id') (orders w) \<noteq> []"
    by (simp add: filter_empty_conv)
  then show "deleteProduct env w retailerId id' =
      (Sent 409 False
         (Some ''Cannot delete product that has existing orders. Consider deactivating it instead.'')
         NoData, w)"
    using assms by (simp add: deleteProduct_def answer_def)
next
  assume h: "(\<forall>ord \<in> set (orders w). product_id ord \<noteq> id') \<and> fails env 2 = None"
  then have none: "filter (\<lambda>ord. product_id ord = id') (orders w) = []"
    by (simp add: filter_empty_conv)
  have keep: "filter (\<lambda>ord. product_id ord \<notin>
        set (map p_id (filter (\<lambda>p. p_id p = id' \<and> p_retailer_id p = retailerId) (products w))))
      (orders w) = orders w"
    using h by (intro filter_True) auto
  have del: "delete_products (\<lambda>p. p_id p = id' \<and> p_retailer_id p = retailerId) w =
      w\<lparr>products :=
          filter (\<lambda>p. \<not> (p_id p = id' \<and> p_retailer_id p = retailerId)) (products w)\<rparr>"
    unfolding delete_products_def keep by simp
  show "deleteProduct env w retailerId id' =
      (Sent 200 True (Some ''Product deleted successfully'') NoData,
       w\<lparr>products :=
           filter (\<lambda>p. \<not> (p_id p = id' \<and> p_retailer_id p = retailerId)) (products w)\<rparr>)"
    using assms h by (simp add: deleteProduct_def answer_def none del)
qed

theorem deleteProduct_guard_witness:
  "fails calm 1 = None \<and> fails calm 2 = None \<and>
   product_id adas_order = p_id widget \<and> orders shop_with_order = [adas_order] \<and>
   deleteProduct calm shop_with_order (r_id demo_retailer) (p_id widget) =
     (Sent 409 False
        (Some ''Cannot delete product that has existing orders. Consider deactivating it instead.'')
        NoData, shop_with_order) \<and>
   orders shop = [] \<and>
   deleteProduct calm shop (r_id demo_retailer) (p_id widget) =
     (Sent 200 True (Some ''Product deleted successfully'') NoData,
      \<lparr>products = [], orders = [], console = []\<rparr>)"
proof -
  have c1: "fails calm 1 = None" and c2: "fails calm 2 = None"
    by (simp_all add: calm_def)
  have ref: "product_id adas_order = p_id widget"
    by (simp add: adas_order_def widget_def)
  have o1: "orders shop_with_order = [adas_order]" and o2: "orders shop = []"
    by (simp_all add: shop_with_order_def shop_def)
  have a: "deleteProduct calm shop_with_order (r_id demo_retailer) (p_id widget) =
     (Sent 409 False
        (Some ''Cannot delete product that has existing orders. Consider deactivating it instead.'')
        NoData, shop_with_order)"
    using deleteProduct_guard [where env = calm and w = shop_with_order and id' = "p_id widget"
        and retailerId = "r_id demo_retailer", OF c1]
    by (simp add: o1 ref)
  have b: "deleteProduct calm shop (r_id demo_retailer) (p_id widget) =
     (Sent 200 True (Some ''Product deleted successfully'') NoData,
      \<lparr>products = [], orders = [], console = []\<rparr>)"
    using deleteProduct_guard [where env = calm and w = shop and id' = "p_id widget"
        and retailerId = "r_id demo_retailer", OF c1]
    by (simp add: o2 c2) (simp add: shop_def widget_def demo_retailer_def)
  from c1 c2 ref o1 o2 a b show ?thesis
    by blast
qed

lemma truthy_simps [simp]: "truthy (Some b) = b" "truthy None = False"
  by (simp_all add: truthy_def)

lemma toggle_once:
  assumes "fails env 1 = None" and "fails env 2 = None"
    and "filter (\<lambda>p. p_id p = id' \<and> p_retailer_id p = retailerId) (products w) = [product]"
  shows "toggleProductStatus env w retailerId id' =
           (Sent 200 True (Some (toggle_message (\<not> truthy (is_active product))))
              (ProductData (product\<lparr>is_active := Some (\<not> truthy (is_active product)),
                 p_updated_at := NOW env\<rparr>)),
            w\<lparr>products :=
                map (\<lambda>p. if p_id p = id' \<and> p_retailer_id p = retailerId
                         then p\<lparr>is_active := Some (\<not> truthy (is_active p)),
                                p_updated_at := NOW env\<rparr>
                         else p) (products w)\<rparr>)"
proof -
  let ?P = "\<lambda>p. p_id p = id' \<and> p_retailer_id p = retailerId"
  let ?f = "\<lambda>p. if ?P p
                 then p\<lparr>is_active := Some (\<not> truthy (is_active product)), p_updated_at := NOW env\<rparr>
                 else p"
  have rows: "toggled_rows env w retailerId id' (\<not> truthy (is_active product)) =
      map ?f (products w)"
    by (simp add: toggled_rows_def update_products_def)
  have "filter ?P (map ?f (products w)) = map ?f (filter (?P \<circ> ?f) (products w))"
    by (simp only: filter_map)
  also have "?P \<circ> ?f = ?P"
    by (rule ext) simp
  finally have one: "filter ?P (map ?f (products w)) =
      [product\<lparr>is_active := Some (\<not> truthy (is_active product)), p_updated_at := NOW env\<rparr>]"
    using assms(3) filter_singleton_mem [OF assms(3)] by simp
  have same: "map ?f (products w) =
      map (\<lambda>p. if ?P p
                then p\<lparr>is_active := Some (\<not> truthy (is_active p)), p_updated_at := NOW env\<rparr>
                else p)
        (products w)"
    using filter_singleton_only [OF assms(3)] by (intro map_cong) auto
  show ?thesis
    using assms(1,2)
    by (simp add: toggleProductStatus_def answer_def assms(3) rows one) (simp add: same)
qed

lemma filter_map_preserved:
  assumes "\<And>p. P (f p) = P p" and "filter P xs = [x]"
  shows "filter P (map f xs) = [f x]"
proof -
  have "P \<circ> f = P"
    by (rule ext) (simp add: assms(1))
  then show ?thesis
    by (simp add: filter_map assms(2))
qed

text \<open>
  Claim C9, as stated, fails for a product whose \<^verbatim>\<open>is_active\<close> is \<^verbatim>\<open>NULL\<close>: the handler
  computes \<^verbatim>\<open>!currentProduct.is_active\<close>, which is \<^verbatim>\<open>true\<close> for \<^verbatim>\<open>null\<close>, so the first toggle
  stores \<^verbatim>\<open>true\<close>, the second one stores \<^verbatim>\<open>false\<close>, and the flag is not back at \<^verbatim>\<open>NULL\<close>.
\<close>

theorem toggleProductStatus_twice_counterexample:
  "map is_active (products odd_shop) = [None] \<and>
   fst (toggleProductStatus calm odd_shop (r_id demo_retailer) (p_id whatsit)) =
     Sent 200 True (Some ''Product activated successfully'')
       (ProductData (whatsit\<lparr>is_active := Some True,
          p_updated_at := ''2024-01-05T10:00:00+00:00''\<rparr>)) \<and>
   map is_active
     (products (snd (toggleProductStatus calm odd_shop (r_id demo_retailer) (p_id whatsit)))) =
     [Some True] \<and>
   fst (toggleProductStatus later
       (snd (toggleProductStatus calm odd_shop (r_id demo_retailer) (p_id whatsit)))
       (r_id demo_retailer) (p_id whatsit)) =
     Sent 200 True (Some ''Product deactivated successfully'')
       (ProductData (whatsit\<lparr>is_active := Some False,
          p_updated_at := ''2024-01-05T11:00:00+00:00''\<rparr>)) \<and>
   map is_active
     (products (snd (toggleProductStatus later
       (snd (toggleProductStatus calm odd_shop (r_id demo_retailer) (p_id whatsit)))
       (r_id demo_retailer) (p_id whatsit)))) =
     [Some False]"
  by code_simp

text \<open>
  Claim C9, amended. For a product of the retailer, with the store answering both calls, a
  toggle answers 200 with the row in which \<^verbatim>\<open>is_active\<close> is the negation of the truth value
  of the old flag (\<^verbatim>\<open>true\<close> becomes \<^verbatim>\<open>false\<close>; \<^verbatim>\<open>false\<close> and \<^verbatim>\<open>NULL\<close> become \<^verbatim>\<open>true\<close>). The handler
  writes no other column; the store stamps \<^verbatim>\<open>updated_at\<close> of the row, as on every update,
  and every other column and every other row is as before. After a second toggle the flag
  is the truth value of the original flag: a product whose flag was \<^verbatim>\<open>true\<close> or \<^verbatim>\<open>false\<close> is
  back at its original state, the stamp apart.
\<close>

theorem toggleProductStatus_twice:
  assumes "fails env 1 = None" and "fails env 2 = None"
    and "fails env' 1 = None" and "fails env' 2 = None"
    and "filter (\<lambda>p. p_id p = id' \<and> p_retailer_id p = retailerId) (products w) = [product]"
  shows "toggleProductStatus env w retailerId id' =
           (Sent 200 True (Some (toggle_message (\<not> truthy (is_active product))))
              (ProductData (product\<lparr>is_active := Some (\<not> truthy (is_active product)),
                 p_updated_at := NOW env\<rparr>)),
            w\<lparr>products :=
                map (\<lambda>p. if p_id p = id' \<and> p_retailer_id p = retailerId
                         then p\<lparr>is_active := Some (\<not> truthy (is_active p)),
                                p_updated_at := NOW env\<rparr>
                         else p) (products w)\<rparr>) \<and>
         toggleProductStatus env' (snd (toggleProductStatus env w retailerId id')) retailerId id' =
           (Sent 200 True (Some (toggle_message (truthy (is_active product))))
              (ProductData (product\<lparr>is_active := Some (truthy (is_active product)),
                 p_updated_at := NOW env'\<rparr>)),
            w\<lparr>products :=
                map (\<lambda>p. if p_id p = id' \<and> p_retailer_id p = retailerId
                         then p\<lparr>is_active := Some (truthy (is_active p)),
                                p_updated_at := NOW env'\<rparr>
                         else p) (products w)\<rparr>) \<and>
         (is_active product \<noteq> None \<longrightarrow>
            toggleProductStatus env' (snd (toggleProductStatus env w retailerId id'))
              retailerId id' =
              (Sent 200 True (Some (toggle_message (truthy (is_active product))))
                 (ProductData (product\<lparr>p_updated_at := NOW env'\<rparr>)),
               w\<lparr>products :=
                   map (\<lambda>p. if p_id p = id' \<and> p_retailer_id p = retailerId
                            then p\<lparr>p_updated_at := NOW env'\<rparr>
                            else p) (products w)\<rparr>))"
proof -
  let ?P = "\<lambda>p. p_id p = id' \<and> p_retailer_id p = retailerId"
  let ?f = "\<lambda>p. if ?P p
                 then p\<lparr>is_active := Some (\<not> truthy (is_active p)), p_updated_at := NOW env\<rparr>
                 else p"
  let ?g = "\<lambda>p. if ?P p
                 then p\<lparr>is_active := Some (\<not> truthy (is_active p)), p_updated_at := NOW env'\<rparr>
                 else p"
  let ?h = "\<lambda>p. if ?P p
                 then p\<lparr>is_active := Some (truthy (is_active p)), p_updated_at := NOW env'\<rparr>
                 else p"
  let ?w1 = "w\<lparr>products := map ?f (products w)\<rparr>"
  note first = toggle_once [OF assms(1,2,5)]
  have Pp: "?P product"
    using filter_singleton_mem [OF assms(5)] by simp
  have "filter ?P (map ?f (products w)) = [?f product]"
    by (rule filter_map_preserved [OF _ assms(5)]) simp
  then have one: "filter ?P (products ?w1) =
      [product\<lparr>is_active := Some (\<not> truthy (is_active product)), p_updated_at := NOW env\<rparr>]"
    using Pp by simp
  have undo: "map ?g (map ?f (products w)) = map ?h (products w)"
    by simp
  have second: "toggleProductStatus env' ?w1 retailerId id' =
      (Sent 200 True (Some (toggle_message (truthy (is_active product))))
         (ProductData (product\<lparr>is_active := Some (truthy (is_active product)),
            p_updated_at := NOW env'\<rparr>)),
       w\<lparr>products := map ?h (products w)\<rparr>)"
    using toggle_once [OF assms(3,4) one] undo by simp
  have third: "toggleProductStatus env' ?w1 retailerId id' =
      (Sent 200 True (Some (toggle_message (truthy (is_active product))))
         (ProductData (product\<lparr>p_updated_at := NOW env'\<rparr>)),
       w\<lparr>products :=
           map (\<lambda>p. if ?P p then p\<lparr>p_updated_at := NOW env'\<rparr> else p) (products w)\<rparr>)"
    if flag: "is_active product \<noteq> None"
  proof -
    from flag have keep: "Some (truthy (is_active product)) = is_active product"
      by auto
    have "map ?h (products w) =
        map (\<lambda>p. if ?P p then p\<lparr>p_updated_at := NOW env'\<rparr> else p) (products w)"
      using filter_singleton_only [OF assms(5)] keep by (intro map_cong) auto
    with second keep show ?thesis
      by simp
  qed
  from first second third show ?thesis
    by simp
qed

theorem toggleProductStatus_twice_witness:
  "fails calm 1 = None \<and> fails calm 2 = None \<and> fails later 1 = None \<and> fails later 2 = None \<and>
   filter (\<lambda>p. p_id p = p_id widget \<and> p_retailer_id p = r_id demo_retailer) (products shop) =
     [widget] \<and>
   is_active widget \<noteq> None \<and>
   toggleProductStatus calm shop (r_id demo_retailer) (p_id widget) =
     (Sent 200 True (Some ''Product deactivated successfully'')
        (ProductData (widget\<lparr>is_active := Some False,
           p_updated_at := ''2024-01-05T10:00:00+00:00''\<rparr>)),
      \<lparr>products = [widget\<lparr>is_active := Some False,
          p_updated_at := ''2024-01-05T10:00:00+00:00''\<rparr>],
        orders = [], console = []\<rparr>) \<and>
   toggleProductStatus later
       (snd (toggleProductStatus calm shop (r_id demo_retailer) (p_id widget)))
       (r_id demo_retailer) (p_id widget) =
     (Sent 200 True (Some ''Product activated successfully'')
        (ProductData (widget\<lparr>p_updated_at := ''2024-01-05T11:00:00+00:00''\<rparr>)),
      \<lparr>products = [widget\<lparr>p_updated_at := ''2024-01-05T11:00:00+00:00''\<rparr>],
        orders = [], console = []\<rparr>)"
proof -
  have c: "fails calm 1 = None" "fails calm 2 = None" "fails later 1 = None" "fails later 2 = None"
    by (simp_all add: calm_def later_def)
  have one: "filter (\<lambda>p. p_id p = p_id widget \<and> p_retailer_id p = r_id demo_retailer)
      (products shop) = [widget]"
    by (simp add: shop_def widget_def demo_retailer_def)
  have act: "is_active widget = Some True"
    by (simp add: widget_def)
  have now: "NOW calm = ''2024-01-05T10:00:00+00:00''" "NOW later = ''2024-01-05T11:00:00+00:00''"
    by (simp_all add: calm_def later_def)
  have match: "p_retailer_id widget = r_id demo_retailer"
    by (simp add: widget_def demo_retailer_def)
  note both = toggleProductStatus_twice [OF c one]
  have a: "toggleProductStatus calm shop (r_id demo_retailer) (p_id widget) =
     (Sent 200 True (Some ''Product deactivated successfully'')
        (ProductData (widget\<lparr>is_active := Some False,
           p_updated_at := ''2024-01-05T10:00:00+00:00''\<rparr>)),
      \<lparr>products = [widget\<lparr>is_active := Some False,
          p_updated_at := ''2024-01-05T10:00:00+00:00''\<rparr>],
        orders = [], console = []\<rparr>)"
    using both [THEN conjunct1] by (simp add: act now toggle_message_def shop_def match)
  have b: "toggleProductStatus later
       (snd (toggleProductStatus calm shop (r_id demo_retailer) (p_id widget)))
       (r_id demo_retailer) (p_id widget) =
     (Sent 200 True (Some ''Product activated successfully'')
        (ProductData (widget\<lparr>p_updated_at := ''2024-01-05T11:00:00+00:00''\<rparr>)),
      \<lparr>products = [widget\<lparr>p_updated_at := ''2024-01-05T11:00:00+00:00''\<rparr>],
        orders = [], console = []\<rparr>)"
    using both [THEN conjunct2, THEN conjunct2] by (simp add: act now toggle_message_def shop_def match)
  have flag: "is_active widget \<noteq> None"
    by (simp add: act)
  from c one flag a b show ?thesis
    by blast
qed

subsection \<open>The dashboard\<close>

lemma getDashboard_Sent:
  assumes "getDashboard env w retailer = (Sent n ok msg (DashboardData d), w')"
  shows "d = dashboard_data env w retailer" and "w' = w" and "first_error env = None"
  using assms by (auto simp: getDashboard_def dashboard_error_def split: option.splits)

lemma getDashboard_calm:
  "getDashboard calm w retailer =
     (Sent 200 True None (DashboardData (dashboard_data calm w retailer)), w)"
  by (simp add: getDashboard_def first_error_def calm_def)

text \<open>
  Claim C3, as stated, fails: the shop's only product is active with a stock of 20; it is
  the lowest-stock active product of the retailer, and the low-stock list of the dashboard
  is empty.
\<close>

theorem dashboard_low_stock_counterexample:
  "fst (getDashboard calm shop demo_retailer) =
     Sent 200 True None (DashboardData (dashboard_data calm shop demo_retailer)) \<and>
   lowStockProducts (dashboard_data calm shop demo_retailer) = [] \<and>
   ten_lowest_stock_active shop (r_id demo_retailer) =
     [\<lparr>ls_id = ''c4a1e8d2-3b5f-4c7a-8e9d-1f2a3b4c5d6e'', ls_name = ''Widget'', ls_stock = 20\<rparr>]"
proof -
  have empty: "lowStockProducts (dashboard_data calm shop demo_retailer) = []"
    by (simp add: dashboard_data_def low_stock_query_def shop_def widget_def demo_retailer_def)
  have lowest: "ten_lowest_stock_active shop (r_id demo_retailer) =
     [\<lparr>ls_id = ''c4a1e8d2-3b5f-4c7a-8e9d-1f2a3b4c5d6e'', ls_name = ''Widget'', ls_stock = 20\<rparr>]"
    by (simp add: ten_lowest_stock_active_def low_stock_item_of_def shop_def widget_def
        demo_retailer_def)
  show ?thesis
    by (simp add: getDashboard_calm empty lowest)
qed

text \<open>
  Claim C3, amended. The low-stock list of the dashboard is taken from the retailer's
  active products whose stock is at most 5: these products split into the listed ones and
  the rest, the list has 10 entries or all of them when they are fewer, it is ascending by
  stock, and no product of the rest has less stock than a listed one.
\<close>

theorem dashboard_low_stock:
  assumes "getDashboard env w retailer = (Sent 200 ok msg (DashboardData d), w')"
  shows "\<exists>rows rest.
           lowStockProducts d = map low_stock_item_of rows \<and>
           mset (rows @ rest) =
             mset (filter (\<lambda>p. p_retailer_id p = r_id retailer \<and> is_active p = Some True \<and> stock p \<le> 5)
                     (products w)) \<and>
           length rows =
             min 10 (length (filter (\<lambda>p. p_retailer_id p = r_id retailer \<and> is_active p = Some True \<and> stock p \<le> 5)
                               (products w))) \<and>
           sorted (map stock rows) \<and>
           (\<forall>a \<in> set rows. \<forall>b \<in> set rest. stock a \<le> stock b)"
proof -
  let ?Q = "filter (\<lambda>p. p_retailer_id p = r_id retailer \<and> is_active p = Some True \<and> stock p \<le> 5) (products w)"
  let ?S = "sort_key stock ?Q"
  have d: "lowStockProducts d = map low_stock_item_of (take 10 ?S)"
    using getDashboard_Sent(1) [OF assms] by (simp add: dashboard_data_def low_stock_query_def)
  have "sorted (map stock (take 10 ?S @ drop 10 ?S))"
    by (simp only: append_take_drop_id sorted_sort_key)
  then have whole: "sorted (map stock (take 10 ?S)) \<and>
      (\<forall>x \<in> set (map stock (take 10 ?S)). \<forall>y \<in> set (map stock (drop 10 ?S)). x \<le> y)"
    by (simp only: map_append sorted_append) blast
  then have asc: "sorted (map stock (take 10 ?S))"
    by (rule conjunct1)
  have low: "\<forall>a \<in> set (take 10 ?S). \<forall>b \<in> set (drop 10 ?S). stock a \<le> stock b"
    using whole [THEN conjunct2] by (simp only: set_map) blast
  have perm: "mset (take 10 ?S @ drop 10 ?S) = mset ?Q"
    by (simp only: append_take_drop_id mset_sort)
  have len: "length (take 10 ?S) = min 10 (length ?Q)"
    by (simp add: min.commute)
  from d perm len asc low show ?thesis
    by blast
qed

theorem dashboard_low_stock_witness:
  "getDashboard calm busy_shop demo_retailer =
     (Sent 200 True None (DashboardData (dashboard_data calm busy_shop demo_retailer)), busy_shop) \<and>
   filter (\<lambda>p. p_retailer_id p = r_id demo_retailer \<and> is_active p = Some True \<and> stock p \<le> 5)
     (products busy_shop) = [gadget] \<and>
   lowStockProducts (dashboard_data calm busy_shop demo_retailer) = [low_stock_item_of gadget]"
proof -
  have q: "filter (\<lambda>p. p_retailer_id p = r_id demo_retailer \<and> is_active p = Some True \<and> stock p \<le> 5)
     (products busy_shop) = [gadget]"
    by (simp add: busy_shop_def widget_def gadget_def gizmo_def demo_retailer_def)
  from dashboard_low_stock [OF getDashboard_calm, of busy_shop demo_retailer]
  obtain rows rest where l: "lowStockProducts (dashboard_data calm busy_shop demo_retailer) =
        map low_stock_item_of rows"
    and m: "mset (rows @ rest) =
        mset (filter (\<lambda>p. p_retailer_id p = r_id demo_retailer \<and> is_active p = Some True \<and> stock p \<le> 5)
          (products busy_shop))"
    and n: "length rows =
        min 10 (length (filter (\<lambda>p. p_retailer_id p = r_id demo_retailer \<and> is_active p = Some True \<and> stock p \<le> 5)
          (products busy_shop)))"
    by (elim exE conjE) (rule that, assumption+)
  from n have "length rows = 1"
    by (simp add: q)
  then obtain r where r: "rows = [r]"
    by (cases rows) auto
  from m have "mset (rows @ rest) = {#gadget#}"
    by (simp add: q)
  then have "r = gadget"
    by (simp add: r single_is_union)
  with l r q getDashboard_calm show ?thesis
    by simp
qed





lemma obj_set_fresh: "k \<notin> set (map fst obj) \<Longrightarrow> obj_set k v obj = obj @ [(k, v)]"
  by (induction obj) auto

lemma obj_incr_distinct:
  "distinct (map fst obj) \<Longrightarrow>
     obj_incr k obj = map (\<lambda>(k', v). (k', if k' = k then v + 1 else v)) obj"
proof (induction obj)
  case Nil
  then show ?case by simp
next
  case (Cons kv obj)
  obtain k' v' where kv: "kv = (k', v')"
    by (cases kv)
  show ?case
  proof (cases "k' = k")
    case True
    with Cons.prems kv have "k \<notin> set (map fst obj)"
      by simp
    then have "map (\<lambda>(k', v). (k', if k' = k then v + 1 else v)) obj = obj"
      by (intro map_idI) (auto simp: image_iff)
    with True kv show ?thesis
      by simp
  next
    case False
    with Cons kv show ?thesis
      by simp
  qed
qed

lemma count_order_distinct:
  assumes "distinct (map fst obj)"
  shows "count_order obj ord =
           map (\<lambda>(k, v). (k, if k = split_T_0 (o_created_at ord) then v + 1 else v)) obj"
proof (cases "hasOwnProperty obj (split_T_0 (o_created_at ord))")
  case True
  then show ?thesis
    by (simp add: count_order_def obj_incr_distinct [OF assms])
next
  case False
  then have "map (\<lambda>(k, v). (k, if k = split_T_0 (o_created_at ord) then v + 1 else v)) obj = obj"
    by (intro map_idI) (auto simp: hasOwnProperty_def image_iff)
  with False show ?thesis
    by (simp add: count_order_def)
qed

lemma foldl_count_order:
  "distinct (map fst obj) \<Longrightarrow>
     foldl count_order obj ws =
       map (\<lambda>(k, v). (k, v + length (filter (\<lambda>ord. split_T_0 (o_created_at ord) = k) ws))) obj"
proof (induction ws arbitrary: obj)
  case Nil
  then show ?case by simp
next
  case (Cons ord ws)
  let ?obj = "map (\<lambda>(k, v). (k, if k = split_T_0 (o_created_at ord) then v + 1 else v)) obj"
  have keys: "map fst ?obj = map fst obj"
    by (induction obj) auto
  have "foldl count_order obj (ord # ws) = foldl count_order ?obj ws"
    by (simp add: count_order_distinct [OF Cons.prems])
  also have "\<dots> =
      map (\<lambda>(k, v). (k, v + length (filter (\<lambda>ord. split_T_0 (o_created_at ord) = k) ws))) ?obj"
    using Cons.prems by (intro Cons.IH) (simp only: keys)
  also have "\<dots> =
      map (\<lambda>(k, v). (k, v + length (filter (\<lambda>ord. split_T_0 (o_created_at ord) = k) (ord # ws))))
        obj"
    by (auto simp: comp_def)
  finally show ?case .
qed

lemma chartData_distinct:
  assumes "distinct (map fst obj)"
  shows "chartData obj = map (\<lambda>(k, v). \<lparr>date = k, orders_on = Some v\<rparr>) obj"
proof -
  have "map_of obj k = Some v" if "(k, v) \<in> set obj" for k v
    using that assms by simp
  then show ?thesis
    by (auto simp: chartData_def comp_def)
qed

lemma seed_days_fresh:
  "distinct (map fst obj @ map (day_key env) (rev [0..<Suc n])) \<Longrightarrow>
     seed_days env n obj = obj @ map (\<lambda>i. (day_key env i, 0)) (rev [0..<Suc n])"
proof (induction n arbitrary: obj)
  case 0
  then show ?case
    by (simp add: obj_set_fresh)
next
  case (Suc n)
  from Suc.prems have fresh: "day_key env (Suc n) \<notin> set (map fst obj)"
    by auto
  have "seed_days env (Suc n) obj = seed_days env n (obj @ [(day_key env (Suc n), 0)])"
    by (simp add: obj_set_fresh [OF fresh])
  also have "\<dots> = (obj @ [(day_key env (Suc n), 0)]) @
      map (\<lambda>i. (day_key env i, 0)) (rev [0..<Suc n])"
    using Suc.prems by (intro Suc.IH) simp
  finally show ?case
    by simp
qed

lemma week_days: "rev [0..<Suc 6] = [6, 5, 4, 3, 2, 1, 0]"
  by code_simp

lemma seed_days_6:
  assumes "distinct (map (day_key env) [6, 5, 4, 3, 2, 1, 0])"
  shows "seed_days env 6 [] = map (\<lambda>i. (day_key env i, 0)) [6, 5, 4, 3, 2, 1, 0]"
  using seed_days_fresh [of "[]" env 6] assms by (simp only: week_days list.map append_Nil)

text \<open>
  When the seven rounds of the loop write seven different keys, the chart has one entry for
  each of them, in the order of the rounds, and the entry of a key counts the orders of
  the list whose \<^verbatim>\<open>created_at\<close>, cut at its \<^verbatim>\<open>T\<close>, is that key. (The store writes timestamps
  in UTC, so the part before the \<^verbatim>\<open>T\<close> is the UTC calendar date of the order.)
\<close>

lemma chartData_distinct_days:
  assumes "distinct (map (day_key env) [6, 5, 4, 3, 2, 1, 0])"
  shows "chartData (dailyOrders env weeklyOrders) =
           map (\<lambda>i. \<lparr>date = day_key env i,
                      orders_on = Some (length (filter
                        (\<lambda>ord. split_T_0 (o_created_at ord) = day_key env i) weeklyOrders))\<rparr>)
             [6, 5, 4, 3, 2, 1, 0]"
proof -
  let ?count = "\<lambda>k. length (filter (\<lambda>ord. split_T_0 (o_created_at ord) = k) weeklyOrders)"
  let ?seed = "map (\<lambda>i. (day_key env i, 0::nat)) [6, 5, 4, 3, 2, 1, 0::nat]"
  have keys: "map fst ?seed = map (day_key env) [6, 5, 4, 3, 2, 1, 0]"
    by simp
  have seeded: "distinct (map fst ?seed)"
    using assms by (simp only: keys)
  have "dailyOrders env weeklyOrders = map (\<lambda>(k, v). (k, v + ?count k)) ?seed"
    by (simp only: dailyOrders_def seed_days_6 [OF assms] foldl_count_order [OF seeded])
  then have counted: "dailyOrders env weeklyOrders =
      map (\<lambda>i. (day_key env i, ?count (day_key env i))) [6, 5, 4, 3, 2, 1, 0]"
    by simp
  have "distinct (map fst (dailyOrders env weeklyOrders))"
    using assms by (simp add: counted comp_def)
  then have "chartData (dailyOrders env weeklyOrders) =
      map (\<lambda>(k, v). \<lparr>date = k, orders_on = Some v\<rparr>) (dailyOrders env weeklyOrders)"
    by (rule chartData_distinct)
  then show ?thesis
    by (simp add: counted)
qed

text \<open>
  The year of a time value is the one that the language standard defines: the year whose
  first day is not after the day of \<open>t\<close> and whose successor's first day is.
\<close>

lemma div_bounds:
  fixes x k :: int
  assumes "0 < k"
  shows "k * (x div k) \<le> x" "x < k * (x div k) + k"
proof -
  have "x = k * (x div k) + x mod k"
    by simp
  moreover have "0 \<le> x mod k" "x mod k < k"
    using assms by simp_all
  ultimately show "k * (x div k) \<le> x" "x < k * (x div k) + k"
    by linarith+
qed

lemma leap_days_upper:
  fixes y a b c :: int
  assumes "4 * a \<le> y - 1969" "y - 1901 < 100 * b + 100" "400 * c \<le> y - 1601"
  shows "400 * (365 * (y - 1970) + a - b + c) \<le> 146097 * (y - 1970) + 589"
  using assms by (simp add: algebra_simps)

lemma leap_days_lower:
  fixes y a b c :: int
  assumes "y - 1969 < 4 * a + 4" "100 * b \<le> y - 1901" "y - 1601 < 400 * c + 400"
  shows "146097 * (y - 1970) - 506 \<le> 400 * (365 * (y - 1970) + a - b + c)"
  using assms by (simp add: algebra_simps)

lemma DayFromYear_upper: "400 * DayFromYear y \<le> 146097 * (y - 1970) + 589"
  unfolding DayFromYear_def by (rule leap_days_upper; rule div_bounds; simp)

lemma DayFromYear_lower: "146097 * (y - 1970) - 506 \<le> 400 * DayFromYear y"
  unfolding DayFromYear_def by (rule leap_days_lower; rule div_bounds; simp)

lemma leap_days_step:
  fixes y a b c a' b' c' :: int
  assumes "a \<le> a'" "100 * b' \<le> y + 1 - 1901" "y - 1901 < 100 * b + 100" "c \<le> c'"
  shows "365 * (y - 1970) + a - b + c < 365 * (y + 1 - 1970) + a' - b' + c'"
  using assms by (simp add: algebra_simps)

lemma DayFromYear_less: "DayFromYear y < DayFromYear (y + 1)"
  unfolding DayFromYear_def
proof (rule leap_days_step)
  show "(y - 1969) div 4 \<le> (y + 1 - 1969) div 4" "(y - 1601) div 400 \<le> (y + 1 - 1601) div 400"
    by (rule zdiv_mono1; simp)+
  show "100 * ((y + 1 - 1901) div 100) \<le> y + 1 - 1901"
    "y - 1901 < 100 * ((y - 1901) div 100) + 100"
    by (rule div_bounds; simp)+
qed

lemma DayFromYear_mono: "y \<le> z \<Longrightarrow> DayFromYear y \<le> DayFromYear z"
proof (induction z rule: int_ge_induct)
  case base
  show ?case by simp
next
  case (step i)
  then show ?case
    using DayFromYear_less [of i] by simp
qed

lemma YearFromTime_bounds:
  "DayFromYear (YearFromTime t) \<le> Day t \<and> Day t < DayFromYear (YearFromTime t + 1)"
proof -
  define d where "d = Day t"
  define y where "y = year_near d"
  have "146097 * ((d * 400) div 146097) \<le> d * 400"
    "d * 400 < 146097 * ((d * 400) div 146097) + 146097"
    by (rule div_bounds; simp)+
  then have y: "146097 * (y - 1970) \<le> 400 * d" "400 * d < 146097 * (y - 1970) + 146097"
    unfolding y_def year_near_def by simp_all
  have lo: "DayFromYear (y - 1) \<le> d"
    using DayFromYear_upper [of "y - 1"] y by (simp add: algebra_simps)
  have hi: "d < DayFromYear (y + 1 + 1)"
    using DayFromYear_lower [of "y + 1 + 1"] y by (simp add: algebra_simps)
  show ?thesis
    unfolding YearFromTime_def d_def [symmetric] y_def [symmetric]
    using lo hi by auto
qed

lemma YearFromTime_iff:
  "YearFromTime t = y \<longleftrightarrow> DayFromYear y \<le> Day t \<and> Day t < DayFromYear (y + 1)"
proof
  assume "YearFromTime t = y"
  then show "DayFromYear y \<le> Day t \<and> Day t < DayFromYear (y + 1)"
    using YearFromTime_bounds [of t] by simp
next
  assume y: "DayFromYear y \<le> Day t \<and> Day t < DayFromYear (y + 1)"
  have "\<not> YearFromTime t < y"
  proof
    assume "YearFromTime t < y"
    then have "DayFromYear (YearFromTime t + 1) \<le> DayFromYear y"
      by (intro DayFromYear_mono) simp
    then show False
      using YearFromTime_bounds [of t] y by linarith
  qed
  moreover have "\<not> y < YearFromTime t"
  proof
    assume "y < YearFromTime t"
    then have "DayFromYear (y + 1) \<le> DayFromYear (YearFromTime t)"
      by (intro DayFromYear_mono) simp
    then show False
      using YearFromTime_bounds [of t] y by linarith
  qed
  ultimately show "YearFromTime t = y"
    by simp
qed

text \<open>The instants of the request around midnight, and the dates of its seven rounds.\<close>

lemma toISOString_1704499199999: "toISOString 1704499199999 = ''2024-01-05T23:59:59.999Z''"
proof -
  have d: "Day 1704499199999 = 19727"
    by (simp add: Day_def msPerDay_def)
  have y: "YearFromTime 1704499199999 = 2024"
    by (simp add: YearFromTime_iff d DayFromYear_def)
  have w: "DayWithinYear 1704499199999 = 4"
    by (simp add: DayWithinYear_def d y DayFromYear_def)
  have l: "InLeapYear 1704499199999 = 1"
    by (simp add: InLeapYear_def y DaysInYear_def)
  have m: "MonthFromTime 1704499199999 = 0"
    by (simp add: MonthFromTime_def w l)
  have dt: "DateFromTime 1704499199999 = 5"
    by (simp add: DateFromTime_def m w l)
  show ?thesis
    by (simp add: toISOString_def y m dt iso_year_def digits_def pad.simps show_nat.simps
        digit_def HourFromTime_def MinFromTime_def SecFromTime_def msFromTime_def)
qed

lemma toISOString_1704499200000: "toISOString 1704499200000 = ''2024-01-06T00:00:00.000Z''"
proof -
  have d: "Day 1704499200000 = 19728"
    by (simp add: Day_def msPerDay_def)
  have y: "YearFromTime 1704499200000 = 2024"
    by (simp add: YearFromTime_iff d DayFromYear_def)
  have w: "DayWithinYear 1704499200000 = 5"
    by (simp add: DayWithinYear_def d y DayFromYear_def)
  have l: "InLeapYear 1704499200000 = 1"
    by (simp add: InLeapYear_def y DaysInYear_def)
  have m: "MonthFromTime 1704499200000 = 0"
    by (simp add: MonthFromTime_def w l)
  have dt: "DateFromTime 1704499200000 = 6"
    by (simp add: DateFromTime_def m w l)
  show ?thesis
    by (simp add: toISOString_def y m dt iso_year_def digits_def pad.simps show_nat.simps
        digit_def HourFromTime_def MinFromTime_def SecFromTime_def msFromTime_def)
qed

lemma date_1703980799999: "split_T_0 (toISOString 1703980799999) = ''2023-12-30''"
proof -
  have d: "Day 1703980799999 = 19721"
    by (simp add: Day_def msPerDay_def)
  have y: "YearFromTime 1703980799999 = 2023"
    by (simp add: YearFromTime_iff d DayFromYear_def)
  have w: "DayWithinYear 1703980799999 = 363"
    by (simp add: DayWithinYear_def d y DayFromYear_def)
  have l: "InLeapYear 1703980799999 = 0"
    by (simp add: InLeapYear_def y DaysInYear_def)
  have m: "MonthFromTime 1703980799999 = 11"
    by (simp add: MonthFromTime_def w l)
  have dt: "DateFromTime 1703980799999 = 30"
    by (simp add: DateFromTime_def m w l)
  show ?thesis
    by (simp add: split_T_0_def toISOString_def y m dt iso_year_def digits_def pad.simps
        show_nat.simps digit_def)
qed

lemma date_1704067200000: "split_T_0 (toISOString 1704067200000) = ''2024-01-01''"
proof -
  have d: "Day 1704067200000 = 19723"
    by (simp add: Day_def msPerDay_def)
  have y: "YearFromTime 1704067200000 = 2024"
    by (simp add: YearFromTime_iff d DayFromYear_def)
  have w: "DayWithinYear 1704067200000 = 0"
    by (simp add: DayWithinYear_def d y DayFromYear_def)
  have l: "InLeapYear 1704067200000 = 1"
    by (simp add: InLeapYear_def y DaysInYear_def)
  have m: "MonthFromTime 1704067200000 = 0"
    by (simp add: MonthFromTime_def w l)
  have dt: "DateFromTime 1704067200000 = 1"
    by (simp add: DateFromTime_def m w l)
  show ?thesis
    by (simp add: split_T_0_def toISOString_def y m dt iso_year_def digits_def pad.simps
        show_nat.simps digit_def)
qed

lemma date_1704153600000: "split_T_0 (toISOString 1704153600000) = ''2024-01-02''"
proof -
  have d: "Day 1704153600000 = 19724"
    by (simp add: Day_def msPerDay_def)
  have y: "YearFromTime 1704153600000 = 2024"
    by (simp add: YearFromTime_iff d DayFromYear_def)
  have w: "DayWithinYear 1704153600000 = 1"
    by (simp add: DayWithinYear_def d y DayFromYear_def)
  have l: "InLeapYear 1704153600000 = 1"
    by (simp add: InLeapYear_def y DaysInYear_def)
  have m: "MonthFromTime 1704153600000 = 0"
    by (simp add: MonthFromTime_def w l)
  have dt: "DateFromTime 1704153600000 = 2"
    by (simp add: DateFromTime_def m w l)
  show ?thesis
    by (simp add: split_T_0_def toISOString_def y m dt iso_year_def digits_def pad.simps
        show_nat.simps digit_def)
qed

lemma date_1704240000000: "split_T_0 (toISOString 1704240000000) = ''2024-01-03''"
proof -
  have d: "Day 1704240000000 = 19725"
    by (simp add: Day_def msPerDay_def)
  have y: "YearFromTime 1704240000000 = 2024"
    by (simp add: YearFromTime_iff d DayFromYear_def)
  have w: "DayWithinYear 1704240000000 = 2"
    by (simp add: DayWithinYear_def d y DayFromYear_def)
  have l: "InLeapYear 1704240000000 = 1"
    by (simp add: InLeapYear_def y DaysInYear_def)
  have m: "MonthFromTime 1704240000000 = 0"
    by (simp add: MonthFromTime_def w l)
  have dt: "DateFromTime 1704240000000 = 3"
    by (simp add: DateFromTime_def m w l)
  show ?thesis
    by (simp add: split_T_0_def toISOString_def y m dt iso_year_def digits_def pad.simps
        show_nat.simps digit_def)
qed

lemma date_1704326400000: "split_T_0 (toISOString 1704326400000) = ''2024-01-04''"
proof -
  have d: "Day 1704326400000 = 19726"
    by (simp add: Day_def msPerDay_def)
  have y: "YearFromTime 1704326400000 = 2024"
    by (simp add: YearFromTime_iff d DayFromYear_def)
  have w: "DayWithinYear 1704326400000 = 3"
    by (simp add: DayWithinYear_def d y DayFromYear_def)
  have l: "InLeapYear 1704326400000 = 1"
    by (simp add: InLeapYear_def y DaysInYear_def)
  have m: "MonthFromTime 1704326400000 = 0"
    by (simp add: MonthFromTime_def w l)
  have dt: "DateFromTime 1704326400000 = 4"
    by (simp add: DateFromTime_def m w l)
  show ?thesis
    by (simp add: split_T_0_def toISOString_def y m dt iso_year_def digits_def pad.simps
        show_nat.simps digit_def)
qed

lemma date_1704412800000: "split_T_0 (toISOString 1704412800000) = ''2024-01-05''"
proof -
  have d: "Day 1704412800000 = 19727"
    by (simp add: Day_def msPerDay_def)
  have y: "YearFromTime 1704412800000 = 2024"
    by (simp add: YearFromTime_iff d DayFromYear_def)
  have w: "DayWithinYear 1704412800000 = 4"
    by (simp add: DayWithinYear_def d y DayFromYear_def)
  have l: "InLeapYear 1704412800000 = 1"
    by (simp add: InLeapYear_def y DaysInYear_def)
  have m: "MonthFromTime 1704412800000 = 0"
    by (simp add: MonthFromTime_def w l)
  have dt: "DateFromTime 1704412800000 = 5"
    by (simp add: DateFromTime_def m w l)
  show ?thesis
    by (simp add: split_T_0_def toISOString_def y m dt iso_year_def digits_def pad.simps
        show_nat.simps digit_def)
qed

lemma day_key_midnight:
  "day_key midnight 6 = ''2023-12-30''" "day_key midnight 5 = ''2024-01-01''"
  "day_key midnight 4 = ''2024-01-02''" "day_key midnight 3 = ''2024-01-03''"
  "day_key midnight 2 = ''2024-01-04''" "day_key midnight 1 = ''2024-01-05''"
  "day_key midnight 0 = ''2024-01-06''" "day_key midnight (Suc 0) = ''2024-01-05''"
proof -
  have today: "split_T_0 (toISOString 1704499200000) = ''2024-01-06''"
    by (simp add: toISOString_1704499200000 split_T_0_def)
  show "day_key midnight 6 = ''2023-12-30''" "day_key midnight 5 = ''2024-01-01''"
    "day_key midnight 4 = ''2024-01-02''" "day_key midnight 3 = ''2024-01-03''"
    "day_key midnight 2 = ''2024-01-04''" "day_key midnight 1 = ''2024-01-05''"
    "day_key midnight 0 = ''2024-01-06''" "day_key midnight (Suc 0) = ''2024-01-05''"
    by (simp_all add: day_key_def midnight_def calm_def date_1703980799999 date_1704067200000
        date_1704153600000 date_1704240000000 date_1704326400000 date_1704412800000 today)
qed

text \<open>
  Claim C7 does not hold of the code when midnight UTC passes while the loop runs. Every
  round of the loop reads \<^verbatim>\<open>Date.now()\<close> anew. With the reading 2024-01-05T23:59:59.999Z in
  the round \<open>i = 6\<close> and 2024-01-06T00:00:00.000Z in the rounds \<open>i = 5\<close> to \<open>i = 0\<close>, the
  chart still has seven entries, but they are 2023-12-30 and then 2024-01-01 to 2024-01-06:
  the day 2023-12-31, one of the seven days that end today, has no entry, and the order
  that the tenant received on that day, which the query of the last seven days fetches, is
  counted in no entry.
\<close>

theorem dashboard_weekly_chart_skips_a_day:
  "map (Date_now midnight) [1, 2, 3, 4, 5, 6, 7, 8, 9] =
     [1704499199999, 1704499199999, 1704499199999, 1704499200000, 1704499200000,
      1704499200000, 1704499200000, 1704499200000, 1704499200000] \<and>
   toISOString 1704499199999 = ''2024-01-05T23:59:59.999Z'' \<and>
   toISOString 1704499200000 = ''2024-01-06T00:00:00.000Z'' \<and>
   map o_created_at (weekly_orders_query midnight new_year_shop (r_id demo_retailer)) =
     [''2023-12-31T10:00:00+00:00''] \<and>
   getDashboard midnight new_year_shop demo_retailer =
     (Sent 200 True None (DashboardData (dashboard_data midnight new_year_shop demo_retailer)),
      new_year_shop) \<and>
   weeklyOrderChart (dashboard_data midnight new_year_shop demo_retailer) =
     [\<lparr>date = ''2023-12-30'', orders_on = Some 0\<rparr>,
      \<lparr>date = ''2024-01-01'', orders_on = Some 0\<rparr>,
      \<lparr>date = ''2024-01-02'', orders_on = Some 0\<rparr>,
      \<lparr>date = ''2024-01-03'', orders_on = Some 0\<rparr>,
      \<lparr>date = ''2024-01-04'', orders_on = Some 0\<rparr>,
      \<lparr>date = ''2024-01-05'', orders_on = Some 0\<rparr>,
      \<lparr>date = ''2024-01-06'', orders_on = Some 0\<rparr>]"
proof -
  have readings: "map (Date_now midnight) [1, 2, 3, 4, 5, 6, 7, 8, 9] =
     [1704499199999, 1704499199999, 1704499199999, 1704499200000, 1704499200000,
      1704499200000, 1704499200000, 1704499200000, 1704499200000]"
    by (simp add: midnight_def calm_def)
  have days: "distinct (map (day_key midnight) [6, 5, 4, 3, 2, 1, 0])"
    by (simp add: day_key_midnight)
  have ws: "weekly_orders_query midnight new_year_shop (r_id demo_retailer) =
     [past_order ''00000000-0000-4000-8000-000000000005'' ''delivered'' 100
        ''2023-12-31T10:00:00+00:00'']"
    by (simp add: weekly_orders_query_def new_year_shop_def past_order_def adas_order_def
        demo_retailer_def midnight_def calm_def demo_instant_def)
  have stamps: "map o_created_at (weekly_orders_query midnight new_year_shop (r_id demo_retailer)) =
     [''2023-12-31T10:00:00+00:00'']"
    by (simp add: ws past_order_def)
  have sent: "getDashboard midnight new_year_shop demo_retailer =
     (Sent 200 True None (DashboardData (dashboard_data midnight new_year_shop demo_retailer)),
      new_year_shop)"
    by (simp add: getDashboard_def first_error_def midnight_def calm_def)
  have chart: "weeklyOrderChart (dashboard_data midnight new_year_shop demo_retailer) =
     [\<lparr>date = ''2023-12-30'', orders_on = Some 0\<rparr>,
      \<lparr>date = ''2024-01-01'', orders_on = Some 0\<rparr>,
      \<lparr>date = ''2024-01-02'', orders_on = Some 0\<rparr>,
      \<lparr>date = ''2024-01-03'', orders_on = Some 0\<rparr>,
      \<lparr>date = ''2024-01-04'', orders_on = Some 0\<rparr>,
      \<lparr>date = ''2024-01-05'', orders_on = Some 0\<rparr>,
      \<lparr>date = ''2024-01-06'', orders_on = Some 0\<rparr>]"
    using chartData_distinct_days [OF days,
        of "weekly_orders_query midnight new_year_shop (r_id demo_retailer)"]
    by (simp add: dashboard_data_def day_key_midnight ws past_order_def split_T_0_def)
  show ?thesis
    by (rule conjI [OF readings conjI [OF toISOString_1704499199999
          conjI [OF toISOString_1704499200000 conjI [OF stamps conjI [OF sent chart]]]]])
qed

end
